theory Spec2Isabelle
  imports Main "HOL-Library.List_Lexorder"
begin

section \<open>The document library of second-brain-app (lib/documents)\<close>

text \<open>
  The module walks a directory tree of markdown notes (\<^verbatim>\<open>getAllDocuments\<close>, the indexer)
  and loads one note by its identifier (\<^verbatim>\<open>getDocument\<close>, the loader). This theory embeds
  both functions, their helpers \<^verbatim>\<open>getMetaFromFile\<close> and \<^verbatim>\<open>getBodyContent\<close>, and the
  JavaScript string and path operations they call.

  Conventions of the embedding.
  \<^item> The filesystem is a tree of \<open>node\<close>s. A directory lists its entries in the order
    \<^verbatim>\<open>readdirSync\<close> enumerates them. Symbolic links, permissions and concurrent changes
    are not part of the model.
  \<^item> The two parsers the module applies to file text, \<^verbatim>\<open>matter\<close> of the gray-matter
    package and \<^verbatim>\<open>JSON.parse\<close>, live outside the repository. A file is represented by
    what they do on its text when the module calls them: each throws, or returns
    \<^verbatim>\<open>null\<close>, or returns a record of
    fields (\<^verbatim>\<open>matter\<close> returns it as \<^verbatim>\<open>data\<close>, beside the remaining \<^verbatim>\<open>content\<close>). A
    parsed value that is neither \<^verbatim>\<open>null\<close> nor an object (a string, a number, an array)
    has none of the four properties the module reads and is represented by the empty
    record.
  \<^item> The properties \<^verbatim>\<open>title\<close>, \<^verbatim>\<open>date\<close> and \<^verbatim>\<open>summary\<close> of front matter and sidecar
    are absent (\<^verbatim>\<open>undefined\<close>) or strings, as the interface \<^verbatim>\<open>DocumentMeta\<close> declares
    them; the comparator of the listing calls a string method on titles and dates. The
    property \<^verbatim>\<open>tags\<close>, which the module only tests with \<^verbatim>\<open>||\<close> and passes on, is
    absent or any value: neither parser checks that it is an array.
  \<^item> \<^verbatim>\<open>String.prototype.localeCompare\<close> is a built-in whose result depends on the
    collation of the host's locale. It is a parameter of the indexer.
  \<^item> A path that the module builds with \<^verbatim>\<open>path.join(dir, entry.name)\<close> for an entry that
    \<^verbatim>\<open>readdirSync(dir)\<close> returned denotes that entry; the operations on such a path are
    given the entry's node, together with the one fact about the path string the code
    inspects (whether it ends in \<^verbatim>\<open>.md\<close>).
  \<^item> An exception that the module does not catch is the \<open>Inl\<close> branch of the result.
\<close>

subsection \<open>JavaScript strings\<close>

text \<open>\<^verbatim>\<open>s.endsWith(suf)\<close>\<close>

definition endsWith :: "string \<Rightarrow> string \<Rightarrow> bool" where
  "endsWith s suf = (length suf \<le> length s \<and> drop (length s - length suf) s = suf)"

text \<open>\<^verbatim>\<open>s.replace(pat, rep)\<close> with a string pattern: only the first occurrence is replaced.\<close>

fun js_replace :: "string \<Rightarrow> string \<Rightarrow> string \<Rightarrow> string" where
  "js_replace pat rep [] = (if pat = [] then rep else [])"
| "js_replace pat rep (c # cs) =
     (if take (length pat) (c # cs) = pat then rep @ drop (length pat) (c # cs)
      else c # js_replace pat rep cs)"

text \<open>\<^verbatim>\<open>s.replace(/-/g, ' ')\<close>: every dash becomes a space.\<close>

definition replace_dashes :: "string \<Rightarrow> string" where
  "replace_dashes s = map (\<lambda>c. if c = CHR ''-'' then CHR '' '' else c) s"

text \<open>\<^verbatim>\<open>s.split(sep)\<close> for a one-character separator; the result is never empty.\<close>

fun js_split :: "char \<Rightarrow> string \<Rightarrow> string list" where
  "js_split sep [] = [[]]"
| "js_split sep (c # cs) =
     (if c = sep then [] # js_split sep cs
      else (case js_split sep cs of
              [] \<Rightarrow> [[c]]
            | w # ws \<Rightarrow> (c # w) # ws))"

text \<open>\<^verbatim>\<open>s.slice(0, -1)\<close>: the string without its last character.\<close>

definition slice_0_m1 :: "string \<Rightarrow> string" where
  "slice_0_m1 s = butlast s"

text \<open>
  \<^verbatim>\<open>xs.sort(cmp)\<close>. ECMAScript requires the sort to be stable; for a comparator that is
  a consistent ordering the result is the stable sorted arrangement, computed here by
  insertion from the right.
\<close>

fun insert_by :: "('a \<Rightarrow> 'a \<Rightarrow> int) \<Rightarrow> 'a \<Rightarrow> 'a list \<Rightarrow> 'a list" where
  "insert_by cmp x [] = [x]"
| "insert_by cmp x (y # ys) =
     (if cmp x y \<le> 0 then x # y # ys else y # insert_by cmp x ys)"

definition js_sort :: "('a \<Rightarrow> 'a \<Rightarrow> int) \<Rightarrow> 'a list \<Rightarrow> 'a list" where
  "js_sort cmp xs = foldr (insert_by cmp) xs []"

subsection \<open>Values and the operator \<^verbatim>\<open>||\<close>\<close>

text \<open>
  A JavaScript value as a parser can produce it. A number is represented by an integer,
  zero standing for the numbers that are not truthy; a date that the YAML parser builds
  is an object.
\<close>

datatype js_value =
    Null
  | Bool bool
  | Num int
  | Str string
  | Arr "js_value list"
  | Obj "(string \<times> js_value) list"

text \<open>Every value is truthy but \<^verbatim>\<open>null\<close>, \<^verbatim>\<open>false\<close>, zero and the empty string.\<close>

fun is_truthy :: "js_value \<Rightarrow> bool" where
  "is_truthy Null = False"
| "is_truthy (Bool b) = b"
| "is_truthy (Num n) = (n \<noteq> 0)"
| "is_truthy (Str s) = (s \<noteq> [])"
| "is_truthy (Arr xs) = True"
| "is_truthy (Obj kvs) = True"

fun is_array :: "js_value \<Rightarrow> bool" where
  "is_array (Arr xs) = True"
| "is_array Null = False"
| "is_array (Bool b) = False"
| "is_array (Num n) = False"
| "is_array (Str s) = False"
| "is_array (Obj kvs) = False"

text \<open>
  The fields of a front matter block or of a sidecar \<^verbatim>\<open>meta.json\<close>
  (\<^verbatim>\<open>Partial<DocumentMeta>\<close>); \<open>None\<close> is \<^verbatim>\<open>undefined\<close>.
\<close>

record meta_fields =
  f_title :: "string option"
  f_date :: "string option"
  f_tags :: "js_value option"
  f_summary :: "string option"

definition no_fields :: meta_fields where
  "no_fields = \<lparr> f_title = None, f_date = None, f_tags = None, f_summary = None \<rparr>"

text \<open>What a parser returns: \<^verbatim>\<open>null\<close>, or a record of fields.\<close>

datatype parsed = Is_null | Fields meta_fields

text \<open>A string value is truthy when it is defined and not the empty string.\<close>

definition truthy :: "string option \<Rightarrow> bool" where
  "truthy v = (case v of None \<Rightarrow> False | Some s \<Rightarrow> s \<noteq> [])"

definition truthy_value :: "js_value option \<Rightarrow> bool" where
  "truthy_value v = (case v of None \<Rightarrow> False | Some x \<Rightarrow> is_truthy x)"

text \<open>\<^verbatim>\<open>a || d\<close> where \<open>d\<close> is a string expression.\<close>

definition or_else :: "string option \<Rightarrow> string \<Rightarrow> string" where
  "or_else a d = (case a of None \<Rightarrow> d | Some s \<Rightarrow> if s = [] then d else s)"

text \<open>\<^verbatim>\<open>a || []\<close> on a tags value.\<close>

definition or_empty :: "js_value option \<Rightarrow> js_value" where
  "or_empty a = (case a of None \<Rightarrow> Arr [] | Some v \<Rightarrow> if is_truthy v then v else Arr [])"

subsection \<open>Exceptions\<close>

text \<open>
  The exceptions of the filesystem calls, the exception \<^verbatim>\<open>matter\<close> throws on front
  matter that is not YAML, and the \<^verbatim>\<open>TypeError\<close> of reading a property of \<^verbatim>\<open>null\<close>.
\<close>

datatype js_error = ENOENT | EISDIR | ENOTDIR | YAMLException | TypeError

text \<open>Evaluation in sequence: an exception in the first step ends the evaluation.\<close>

definition and_then :: "js_error + 'a \<Rightarrow> ('a \<Rightarrow> js_error + 'b) \<Rightarrow> js_error + 'b" where
  "and_then x f = (case x of Inl e \<Rightarrow> Inl e | Inr v \<Rightarrow> f v)"

text \<open>\<^verbatim>\<open>obj.field\<close>: reading a property of \<^verbatim>\<open>null\<close> throws.\<close>

definition get_prop :: "(meta_fields \<Rightarrow> 'a) \<Rightarrow> parsed \<Rightarrow> js_error + 'a" where
  "get_prop field obj = (case obj of Is_null \<Rightarrow> Inl TypeError | Fields m \<Rightarrow> Inr (field m))"

text \<open>
  \<^verbatim>\<open>a.field || b.field\<close>: the second property is read only when the first is not
  truthy.
\<close>

definition or_prop ::
  "('a \<Rightarrow> bool) \<Rightarrow> (meta_fields \<Rightarrow> 'a) \<Rightarrow> parsed \<Rightarrow> parsed \<Rightarrow> js_error + 'a" where
  "or_prop is_true field a b =
     and_then (get_prop field a) (\<lambda>v. if is_true v then Inr v else get_prop field b)"

subsection \<open>The filesystem\<close>

text \<open>
  A regular file: \<^verbatim>\<open>matter(text).data\<close> (\<open>None\<close> when \<^verbatim>\<open>matter(text)\<close> throws),
  \<^verbatim>\<open>matter(text).content\<close>, and \<^verbatim>\<open>JSON.parse(text)\<close> (\<open>None\<close> when it throws).
\<close>

record file_data =
  matter_data :: "parsed option"
  matter_content :: string
  json_parse :: "parsed option"

datatype node = File file_data | Dir "(string \<times> node) list"

fun isDirectory :: "node \<Rightarrow> bool" where
  "isDirectory (Dir es) = True"
| "isDirectory (File f) = False"

text \<open>The entry called \<open>n\<close> of a node; a file has no entries.\<close>

fun child :: "node \<Rightarrow> string \<Rightarrow> node option" where
  "child (Dir es) n = map_of es n"
| "child (File f) n = None"

fun lookup :: "node \<Rightarrow> string list \<Rightarrow> node option" where
  "lookup nd [] = Some nd"
| "lookup nd (s # ss) = (case child nd s of None \<Rightarrow> None | Some c \<Rightarrow> lookup c ss)"

text \<open>\<^verbatim>\<open>fs.readFileSync(p, 'utf-8')\<close>, given what \<open>p\<close> denotes.\<close>

definition readFileSync :: "node option \<Rightarrow> js_error + file_data" where
  "readFileSync p =
     (case p of
        None \<Rightarrow> Inl ENOENT
      | Some (Dir es) \<Rightarrow> Inl EISDIR
      | Some (File f) \<Rightarrow> Inr f)"

text \<open>\<^verbatim>\<open>fs.readdirSync(p, { withFileTypes: true })\<close>, given what \<open>p\<close> denotes.\<close>

definition readdirSync :: "node option \<Rightarrow> js_error + (string \<times> node) list" where
  "readdirSync p =
     (case p of
        None \<Rightarrow> Inl ENOENT
      | Some (File f) \<Rightarrow> Inl ENOTDIR
      | Some (Dir es) \<Rightarrow> Inr es)"

text \<open>
  \<^verbatim>\<open>const { data, content } = matter(fileContent)\<close>, as the pair of \<^verbatim>\<open>content\<close> and
  \<^verbatim>\<open>data\<close>.
\<close>

definition matter :: "file_data \<Rightarrow> js_error + (string \<times> parsed)" where
  "matter f =
     (case matter_data f of
        None \<Rightarrow> Inl YAMLException
      | Some d \<Rightarrow> Inr (matter_content f, d))"

subsection \<open>Paths\<close>

text \<open>
  An absolute normalized path is the list of its segments and a flag for a trailing
  slash. \<^verbatim>\<open>BRAIN_PATH\<close> is read from the environment; it is a parameter \<open>brain\<close>, the
  segments of an absolute normalized path.

  \<^verbatim>\<open>path.join(base, rel)\<close> joins with a slash and normalizes lexically: empty segments
  and \<^verbatim>\<open>.\<close> vanish, \<^verbatim>\<open>..\<close> removes the segment before it (none above
  the root), and a trailing slash of \<open>rel\<close> is kept.
\<close>

fun normalize :: "string list \<Rightarrow> string list \<Rightarrow> string list" where
  "normalize acc [] = acc"
| "normalize acc (s # ss) =
     (if s = [] \<or> s = ''.'' then normalize acc ss
      else if s = ''..'' then normalize (butlast acc) ss
      else normalize (acc @ [s]) ss)"

type_synonym path = "string list \<times> bool"

definition path_join :: "string list \<Rightarrow> string \<Rightarrow> path" where
  "path_join base rel =
     (normalize base (js_split CHR ''/'' rel), rel \<noteq> [] \<and> last rel = CHR ''/'')"

text \<open>What a path denotes: with a trailing slash only a directory.\<close>

definition resolve :: "node \<Rightarrow> path \<Rightarrow> node option" where
  "resolve fs p =
     (case lookup fs (fst p) of
        None \<Rightarrow> None
      | Some nd \<Rightarrow> if snd p \<and> \<not> isDirectory nd then None else Some nd)"

definition existsSync :: "node \<Rightarrow> path \<Rightarrow> bool" where
  "existsSync fs p = (resolve fs p \<noteq> None)"

text \<open>\<^verbatim>\<open>docPath + '.md'\<close> on the path string.\<close>

definition append_md :: "path \<Rightarrow> path" where
  "append_md p =
     (if snd p \<or> fst p = [] then (fst p @ [''.md''], False)
      else (butlast (fst p) @ [last (fst p) @ ''.md''], False))"

text \<open>\<^verbatim>\<open>docPath.endsWith('.md')\<close> on the path string.\<close>

definition path_ends_md :: "path \<Rightarrow> bool" where
  "path_ends_md p = (\<not> snd p \<and> fst p \<noteq> [] \<and> endsWith (last (fst p)) ''.md'')"

subsection \<open>Documents\<close>

record DocumentMeta =
  doc_id :: string
  title :: string
  doc_type :: string
  category :: "string option"
  date :: "string option"
  tags :: "js_value option"
  summary :: "string option"

record Document = DocumentMeta +
  content :: string
  sections :: "string list option"

subsection \<open>Metadata resolver\<close>

text \<open>
  \<^verbatim>\<open>getMetaFromFile(metaPath)\<close>, given what \<open>metaPath\<close> denotes. The read and the parse
  are inside \<^verbatim>\<open>try\<close>; every failure (a directory in place of the file, text that does
  not parse) is caught and gives the empty record. A text that parses is returned as it
  parses, also when it parses to \<^verbatim>\<open>null\<close>.
\<close>

definition getMetaFromFile :: "node option \<Rightarrow> parsed" where
  "getMetaFromFile metaPath =
     (case metaPath of
        None \<Rightarrow> Fields no_fields
      | Some nd \<Rightarrow>
          (case readFileSync (Some nd) of
             Inl e \<Rightarrow> Fields no_fields
           | Inr f \<Rightarrow> (case json_parse f of None \<Rightarrow> Fields no_fields | Some m \<Rightarrow> m)))"

text \<open>
  \<^verbatim>\<open>getBodyContent(docPath)\<close>, given whether the string \<open>docPath\<close> ends in \<^verbatim>\<open>.md\<close> and
  what \<open>docPath\<close> denotes (the module calls it only on paths that exist, so the test
  \<^verbatim>\<open>fs.existsSync(docPath)\<close> of its second branch is true). The result is the pair of
  \<^verbatim>\<open>content\<close> and \<^verbatim>\<open>frontmatter\<close>.
\<close>

definition getBodyContent :: "bool \<Rightarrow> node \<Rightarrow> js_error + (string \<times> parsed)" where
  "getBodyContent ends_md docPath =
     (let bodyPath = child docPath ''body.md'';
          indexPath = child docPath ''index.md'';
          filePath = (if bodyPath = None \<and> indexPath \<noteq> None then indexPath else bodyPath)
      in if filePath \<noteq> None then and_then (readFileSync filePath) matter
         else if ends_md then and_then (readFileSync (Some docPath)) matter
         else Inr ([], Fields no_fields))"

subsection \<open>Tree walker (indexer)\<close>

text \<open>
  A \<^verbatim>\<open>for\<close> loop whose body pushes documents onto the array \<^verbatim>\<open>documents\<close>: each
  iteration yields the documents it pushes, in order; an exception in an iteration ends
  the loop and the function.
\<close>

fun for_each :: "('a \<Rightarrow> js_error + 'b list) \<Rightarrow> 'a list \<Rightarrow> js_error + 'b list" where
  "for_each body [] = Inr []"
| "for_each body (x # xs) =
     (case body x of
        Inl e \<Rightarrow> Inl e
      | Inr ds \<Rightarrow>
          (case for_each body xs of
             Inl e \<Rightarrow> Inl e
           | Inr ds' \<Rightarrow> Inr (ds @ ds')))"

text \<open>
  The body of the loop over \<^verbatim>\<open>subEntries\<close> of a category folder \<^verbatim>\<open>entry\<close>
  (a subdocument folder, a subdocument file, or nothing). The properties of an object
  literal are evaluated in the order they are written.
\<close>

definition scan_sub_entry :: "string \<Rightarrow> string \<Rightarrow> string \<times> node \<Rightarrow> js_error + DocumentMeta list" where
  "scan_sub_entry type entry_name subEntry =
     (let sub_name = fst subEntry; subPath = snd subEntry in
      if isDirectory subPath then
        (let meta = getMetaFromFile (child subPath ''meta.json'') in
         and_then (getBodyContent (endsWith sub_name ''.md'') subPath) (\<lambda>(body, frontmatter).
         and_then (or_prop truthy f_title frontmatter meta) (\<lambda>t.
         and_then (or_prop truthy f_date frontmatter meta) (\<lambda>d.
         and_then (or_prop truthy_value f_tags frontmatter meta) (\<lambda>g.
         and_then (or_prop truthy f_summary frontmatter meta) (\<lambda>s.
           Inr [\<lparr> doc_id = type @ ''/'' @ entry_name @ ''/'' @ sub_name,
                  title = or_else t (replace_dashes sub_name),
                  doc_type = slice_0_m1 type,
                  category = Some entry_name,
                  date = d,
                  tags = Some (or_empty g),
                  summary = s \<rparr>]))))))
      else if endsWith sub_name ''.md'' then
        and_then (getBodyContent (endsWith sub_name ''.md'') subPath) (\<lambda>(body, frontmatter).
        (let name = js_replace ''.md'' [] sub_name in
         and_then (get_prop f_title frontmatter) (\<lambda>t.
         and_then (get_prop f_date frontmatter) (\<lambda>d.
         and_then (get_prop f_tags frontmatter) (\<lambda>g.
         and_then (get_prop f_summary frontmatter) (\<lambda>s.
           Inr [\<lparr> doc_id = type @ ''/'' @ entry_name @ ''/'' @ name,
                  title = or_else t (replace_dashes name),
                  doc_type = slice_0_m1 type,
                  category = Some entry_name,
                  date = d,
                  tags = Some (or_empty g),
                  summary = s \<rparr>]))))))
      else Inr [])"

text \<open>
  The body of the loop over the \<^verbatim>\<open>entries\<close> of a type folder (a document folder, a
  category folder, a flat file, or nothing).
\<close>

definition scan_entry :: "string \<Rightarrow> string \<times> node \<Rightarrow> js_error + DocumentMeta list" where
  "scan_entry type entry =
     (let entry_name = fst entry; entryPath = snd entry in
      if isDirectory entryPath then
        and_then (readdirSync (Some entryPath)) (\<lambda>subEntries.
        (let hasBody = list_ex (\<lambda>e. fst e = ''body.md'' \<or> fst e = ''index.md'') subEntries in
         if hasBody then
           (let meta = getMetaFromFile (child entryPath ''meta.json'') in
            and_then (getBodyContent (endsWith entry_name ''.md'') entryPath) (\<lambda>(body, frontmatter).
            and_then (or_prop truthy f_title frontmatter meta) (\<lambda>t.
            and_then (or_prop truthy f_date frontmatter meta) (\<lambda>d.
            and_then (or_prop truthy_value f_tags frontmatter meta) (\<lambda>g.
            and_then (or_prop truthy f_summary frontmatter meta) (\<lambda>s.
              Inr [\<lparr> doc_id = type @ ''/'' @ entry_name,
                     title = or_else t (replace_dashes entry_name),
                     doc_type = slice_0_m1 type,
                     category = (if type = ''projects'' then Some entry_name else None),
                     date = d,
                     tags = Some (or_empty g),
                     summary = s \<rparr>]))))))
         else for_each (scan_sub_entry type entry_name) subEntries))
      else if endsWith entry_name ''.md'' then
        and_then (getBodyContent (endsWith entry_name ''.md'') entryPath) (\<lambda>(body, frontmatter).
        (let name = js_replace ''.md'' [] entry_name in
         and_then (get_prop f_title frontmatter) (\<lambda>t.
         and_then (get_prop f_date frontmatter) (\<lambda>d.
         and_then (get_prop f_tags frontmatter) (\<lambda>g.
         and_then (get_prop f_summary frontmatter) (\<lambda>s.
           Inr [\<lparr> doc_id = type @ ''/'' @ name,
                  title = or_else t name,
                  doc_type = slice_0_m1 type,
                  category = None,
                  date = Some (or_else d name),
                  tags = Some (or_empty g),
                  summary = s \<rparr>]))))))
      else Inr [])"

text \<open>The body of the loop over the three type folders under \<^verbatim>\<open>BRAIN_PATH\<close>.\<close>

definition scan_type :: "string list \<Rightarrow> node \<Rightarrow> string \<Rightarrow> js_error + DocumentMeta list" where
  "scan_type brain fs type =
     (let typePath = lookup fs (brain @ [type]) in
      if typePath = None then Inr []
      else and_then (readdirSync typePath) (for_each (scan_entry type)))"

text \<open>
  The comparator given to \<^verbatim>\<open>documents.sort\<close>, for the built-in \<open>localeCompare\<close> of the
  host.
\<close>

definition compare_docs :: "(string \<Rightarrow> string \<Rightarrow> int) \<Rightarrow> DocumentMeta \<Rightarrow> DocumentMeta \<Rightarrow> int" where
  "compare_docs localeCompare a b =
     (if truthy (date a) \<and> truthy (date b) then localeCompare (the (date b)) (the (date a))
      else if truthy (date a) then - 1
      else if truthy (date b) then 1
      else localeCompare (title a) (title b))"

definition getAllDocuments ::
  "(string \<Rightarrow> string \<Rightarrow> int) \<Rightarrow> string list \<Rightarrow> node \<Rightarrow> js_error + DocumentMeta list" where
  "getAllDocuments localeCompare brain fs =
     and_then (for_each (scan_type brain fs) [''projects'', ''journals'', ''concepts''])
       (\<lambda>documents. Inr (js_sort (compare_docs localeCompare) documents))"

subsection \<open>Document loader\<close>

text \<open>The names of the \<^verbatim>\<open>sections\<close> directory, given what \<^verbatim>\<open>sectionsPath\<close> denotes.\<close>

definition read_sections :: "node option \<Rightarrow> js_error + string list" where
  "read_sections sectionsPath =
     (if sectionsPath \<noteq> None then
        and_then (readdirSync sectionsPath) (\<lambda>es.
          Inr (map (js_replace ''.md'' []) (filter (\<lambda>f. endsWith f ''.md'') (map fst es))))
      else Inr [])"

definition getDocument :: "string list \<Rightarrow> node \<Rightarrow> string \<Rightarrow> js_error + Document option" where
  "getDocument brain fs ident =
     (let docPath = path_join brain ident;
          actualPath = (if \<not> existsSync fs docPath then append_md docPath else docPath)
      in if \<not> existsSync fs docPath \<and> \<not> existsSync fs (append_md docPath) then Inr None
         else
           (case resolve fs actualPath of
              None \<Rightarrow> Inl ENOENT
            | Some nd \<Rightarrow>
                if isDirectory nd then
                  (let meta = getMetaFromFile (child nd ''meta.json'') in
                   and_then (getBodyContent (path_ends_md actualPath) nd) (\<lambda>(body, frontmatter).
                   and_then (read_sections (child nd ''sections'')) (\<lambda>secs.
                   (let parts = js_split CHR ''/'' ident;
                        type = slice_0_m1 (hd parts)
                    in
                    and_then (or_prop truthy f_title frontmatter meta) (\<lambda>t.
                    and_then (or_prop truthy f_date frontmatter meta) (\<lambda>d.
                    and_then (or_prop truthy_value f_tags frontmatter meta) (\<lambda>g.
                    and_then (or_prop truthy f_summary frontmatter meta) (\<lambda>s.
                      Inr (Some
                        \<lparr> doc_id = ident,
                          title = or_else t (replace_dashes (last parts)),
                          doc_type = type,
                          category = (if length parts > 2 then Some (parts ! 1) else None),
                          date = d,
                          tags = Some (or_empty g),
                          summary = s,
                          content = body,
                          sections = Some secs \<rparr>)))))))))
                else
                  and_then (getBodyContent (path_ends_md actualPath) nd) (\<lambda>(body, frontmatter).
                  (let parts = js_split CHR ''/'' ident;
                       name = last parts;
                       type = slice_0_m1 (hd parts)
                   in
                   and_then (get_prop f_title frontmatter) (\<lambda>t.
                   and_then (get_prop f_date frontmatter) (\<lambda>d.
                   and_then (get_prop f_tags frontmatter) (\<lambda>g.
                   and_then (get_prop f_summary frontmatter) (\<lambda>s.
                     Inr (Some
                       \<lparr> doc_id = ident,
                         title = or_else t (replace_dashes name),
                         doc_type = type,
                         category = (if length parts > 2 then Some (parts ! 1) else None),
                         date = Some (or_else d name),
                         tags = Some (or_empty g),
                         summary = s,
                         content = body,
                         sections = None \<rparr>)))))))))"


section \<open>Notions used in the statements\<close>

subsection \<open>Comparison of strings\<close>



subsection \<open>Names and identifiers\<close>

text \<open>
  \<open>stems\<close>: the names under which the indexer lists the entries of a folder, a directory
  under its name and a markdown file under its name with \<^verbatim>\<open>.md\<close> replaced as the indexer
  replaces it. \<open>base_names\<close>: the names of the same entries in the words of the
  specification, a markdown file under its name without the extension.
  \<open>md_at_end_only\<close>: \<^verbatim>\<open>.md\<close> occurs in a name nowhere before its last three characters.
  \<open>has_body\<close> is the indexer's test for a document folder; a directory that fails it is
  a category folder. A tree is \<open>tree_clash_free\<close> when in each type folder, and in each
  category folder, no two indexed entries have the same base name and \<^verbatim>\<open>.md\<close> occurs in
  the name of a markdown file only as its extension, and no name in a type folder
  contains a slash (no name of a real directory entry does).
\<close>

definition no_slash :: "string \<Rightarrow> bool" where
  "no_slash s = (CHR ''/'' \<notin> set s)"

definition stems :: "(string \<times> node) list \<Rightarrow> string list" where
  "stems entries =
     concat (map (\<lambda>e. if isDirectory (snd e) then [fst e]
                       else if endsWith (fst e) ''.md'' then [js_replace ''.md'' [] (fst e)]
                       else []) entries)"

definition strip_extension :: "string \<Rightarrow> string" where
  "strip_extension n = take (length n - length ''.md'') n"

definition base_names :: "(string \<times> node) list \<Rightarrow> string list" where
  "base_names entries =
     concat (map (\<lambda>e. if isDirectory (snd e) then [fst e]
                       else if endsWith (fst e) ''.md'' then [strip_extension (fst e)]
                       else []) entries)"

fun occurs :: "string \<Rightarrow> string \<Rightarrow> bool" where
  "occurs pat [] = (pat = [])"
| "occurs pat (c # cs) = (take (length pat) (c # cs) = pat \<or> occurs pat cs)"

definition md_at_end_only :: "string \<Rightarrow> bool" where
  "md_at_end_only n = (\<not> occurs ''.md'' (butlast n))"

definition plain_extensions :: "(string \<times> node) list \<Rightarrow> bool" where
  "plain_extensions entries =
     list_all (\<lambda>e. if isDirectory (snd e) then True
                    else if endsWith (fst e) ''.md'' then md_at_end_only (fst e)
                    else True) entries"

definition has_body :: "(string \<times> node) list \<Rightarrow> bool" where
  "has_body subEntries = list_ex (\<lambda>e. fst e = ''body.md'' \<or> fst e = ''index.md'') subEntries"

definition entries_of :: "node option \<Rightarrow> (string \<times> node) list" where
  "entries_of p = (case p of Some (Dir es) \<Rightarrow> es | _ \<Rightarrow> [])"

definition type_entries :: "string list \<Rightarrow> node \<Rightarrow> string \<Rightarrow> (string \<times> node) list" where
  "type_entries brain fs type = entries_of (lookup fs (brain @ [type]))"

definition is_category_folder :: "node \<Rightarrow> bool" where
  "is_category_folder nd = (isDirectory nd \<and> \<not> has_body (entries_of (Some nd)))"

definition clash_free :: "(string \<times> node) list \<Rightarrow> bool" where
  "clash_free entries =
     (distinct (base_names entries) \<and> plain_extensions entries
      \<and> list_all no_slash (map fst entries)
      \<and> list_all (\<lambda>e. if is_category_folder (snd e)
                       then distinct (base_names (entries_of (Some (snd e))))
                            \<and> plain_extensions (entries_of (Some (snd e)))
                       else True) entries)"

definition tree_clash_free :: "string list \<Rightarrow> node \<Rightarrow> bool" where
  "tree_clash_free brain fs =
     list_all (\<lambda>type. clash_free (type_entries brain fs type))
       [''projects'', ''journals'', ''concepts'']"



subsection \<open>Body, front matter and sidecar of a node\<close>

text \<open>
  \<open>primary_body\<close>: the entry \<open>getBodyContent\<close> reads in a folder, \<^verbatim>\<open>body.md\<close>, or
  \<^verbatim>\<open>index.md\<close> when there is no \<^verbatim>\<open>body.md\<close>. \<open>md_directory\<close>: a directory without
  primary body whose path ends in \<^verbatim>\<open>.md\<close>. \<open>front_matter\<close>: the front matter of a node,
  that of its primary body file, or of the node itself when it is a markdown file, or
  the empty record when there is nothing to read; \<open>None\<close> when the primary body is a
  directory, for an \<open>md_directory\<close>, and when \<^verbatim>\<open>matter\<close> throws on the text.
  \<open>sidecar_null\<close>: the node has a sidecar file that parses to \<^verbatim>\<open>null\<close>.
  \<open>fields_complete\<close>: all four fields of a front matter are truthy, so that the module
  reads no field of the sidecar. \<open>fields_readable\<close>: the front matter is not \<^verbatim>\<open>null\<close>,
  and the sidecar is not \<^verbatim>\<open>null\<close> when the module reads it. \<open>readable\<close>: the front
  matter of a node can be read and its fields are readable.
\<close>

definition primary_body :: "node \<Rightarrow> node option" where
  "primary_body nd =
     (if child nd ''body.md'' = None \<and> child nd ''index.md'' \<noteq> None then child nd ''index.md''
      else child nd ''body.md'')"

definition md_directory :: "bool \<Rightarrow> node \<Rightarrow> bool" where
  "md_directory ends_md nd = (primary_body nd = None \<and> ends_md \<and> isDirectory nd)"

definition front_matter :: "bool \<Rightarrow> node \<Rightarrow> parsed option" where
  "front_matter ends_md nd =
     (case primary_body nd of
        Some (File f) \<Rightarrow> matter_data f
      | Some (Dir es) \<Rightarrow> None
      | None \<Rightarrow>
          (case nd of
             File f \<Rightarrow> if ends_md then matter_data f else Some (Fields no_fields)
           | Dir es \<Rightarrow> if ends_md then None else Some (Fields no_fields)))"

definition sidecar_null :: "node \<Rightarrow> bool" where
  "sidecar_null nd =
     (case child nd ''meta.json'' of
        Some (File s) \<Rightarrow> json_parse s = Some Is_null
      | _ \<Rightarrow> False)"

definition fields_complete :: "meta_fields \<Rightarrow> bool" where
  "fields_complete fm =
     (truthy (f_title fm) \<and> truthy (f_date fm) \<and> truthy_value (f_tags fm) \<and> truthy (f_summary fm))"

definition fields_readable :: "node \<Rightarrow> parsed \<Rightarrow> bool" where
  "fields_readable nd fm =
     (case fm of
        Is_null \<Rightarrow> False
      | Fields m \<Rightarrow> \<not> (sidecar_null nd \<and> \<not> fields_complete m))"

definition readable :: "bool \<Rightarrow> node \<Rightarrow> bool" where
  "readable ends_md nd =
     (case front_matter ends_md nd of
        None \<Rightarrow> False
      | Some fm \<Rightarrow> fields_readable nd fm)"

subsection \<open>The precedence rule\<close>

text \<open>
  The precedence rule in the words of the specification, for comparison with what the
  code computes: the front matter value when it is present and non-empty, otherwise the
  sidecar value when present, otherwise absent.
\<close>

definition spec_precedence :: "string option \<Rightarrow> string option \<Rightarrow> string option" where
  "spec_precedence fm sc =
     (case fm of
        Some v \<Rightarrow> if v \<noteq> [] then Some v else sc
      | None \<Rightarrow> sc)"

definition spec_precedence_tags :: "js_value option \<Rightarrow> js_value option \<Rightarrow> js_value option" where
  "spec_precedence_tags fm sc =
     (case fm of
        Some v \<Rightarrow> if v \<noteq> Arr [] \<and> v \<noteq> Str [] then Some v else sc
      | None \<Rightarrow> sc)"

subsection \<open>The loader's path, sections, tags and sidecars\<close>

text \<open>
  \<open>loader_path\<close>: the path \<open>getDocument\<close> settles on (\<^verbatim>\<open>actualPath\<close>), the joined path
  when it exists, else the joined path with \<^verbatim>\<open>.md\<close> appended when that exists, else
  none. \<open>sections_readable\<close>: the \<^verbatim>\<open>sections\<close> entry of a node, if any, is a directory.
  \<open>fields_of\<close>: the fields of a parsed value, none for \<^verbatim>\<open>null\<close>.
  \<open>sidecar_fields\<close>: the fields of the sidecar of a node, those of its \<^verbatim>\<open>meta.json\<close>
  when that is a file that parses to a record, none otherwise (a file has no sidecar).
  \<open>or_value\<close>: the first of two values when it is truthy, else the second.
  \<open>supplied_tags\<close>: the value of \<^verbatim>\<open>tags\<close> that the front matter \<open>fm\<close> supplies, or else
  the sidecar of the node. \<open>empty_malformed\<close>: the tree in which every file on which
  \<^verbatim>\<open>JSON.parse\<close> throws holds the empty record \<^verbatim>\<open>{}\<close> instead.
\<close>

definition loader_path :: "string list \<Rightarrow> node \<Rightarrow> string \<Rightarrow> path option" where
  "loader_path brain fs ident =
     (let docPath = path_join brain ident in
      if existsSync fs docPath then Some docPath
      else if existsSync fs (append_md docPath) then Some (append_md docPath)
      else None)"

definition sections_readable :: "node \<Rightarrow> bool" where
  "sections_readable nd = (case child nd ''sections'' of Some (File f) \<Rightarrow> False | _ \<Rightarrow> True)"

definition fields_of :: "parsed \<Rightarrow> meta_fields" where
  "fields_of p = (case p of Is_null \<Rightarrow> no_fields | Fields m \<Rightarrow> m)"

definition sidecar_fields :: "node \<Rightarrow> meta_fields" where
  "sidecar_fields nd =
     (case child nd ''meta.json'' of
        Some (File s) \<Rightarrow> (case json_parse s of Some (Fields sc) \<Rightarrow> sc | _ \<Rightarrow> no_fields)
      | _ \<Rightarrow> no_fields)"

definition or_value :: "js_value option \<Rightarrow> js_value option \<Rightarrow> js_value option" where
  "or_value a b = (if truthy_value a then a else b)"

definition supplied_tags :: "meta_fields \<Rightarrow> node \<Rightarrow> js_value option" where
  "supplied_tags fm nd = or_value (f_tags fm) (f_tags (sidecar_fields nd))"

primrec empty_malformed :: "node \<Rightarrow> node" where
  "empty_malformed (File f) =
     File (f\<lparr> json_parse := (case json_parse f of None \<Rightarrow> Some (Fields no_fields) | Some m \<Rightarrow> Some m) \<rparr>)"
| "empty_malformed (Dir es) = Dir (map (map_prod (\<lambda>n. n) empty_malformed) es)"

subsection \<open>Plain names, the title rule, equal metadata\<close>

text \<open>
  \<open>no_dot\<close>: a file stem without a dot, so that \<^verbatim>\<open>.md\<close> occurs in the file name only as
  its extension. \<open>plain_name\<close>: a name that \<^verbatim>\<open>path.join\<close> leaves alone. \<open>spec_title\<close>: the
  title rule in the words of the specification, front matter title, else sidecar title,
  else the last segment of the identifier with dashes replaced by spaces. \<open>same_meta\<close>:
  a loaded document and a listed record agree on every metadata field.
\<close>

definition no_dot :: "string \<Rightarrow> bool" where
  "no_dot s = (CHR ''.'' \<notin> set s)"

definition spec_title :: "string option \<Rightarrow> string option \<Rightarrow> string \<Rightarrow> string" where
  "spec_title fm sc ident =
     (case spec_precedence fm sc of
        Some t \<Rightarrow> if t \<noteq> [] then t else replace_dashes (last (js_split CHR ''/'' ident))
      | None \<Rightarrow> replace_dashes (last (js_split CHR ''/'' ident)))"

definition plain_name :: "string \<Rightarrow> bool" where
  "plain_name n = (n \<noteq> [] \<and> n \<noteq> ''.'' \<and> n \<noteq> ''..'' \<and> no_slash n)"

definition same_meta :: "Document \<Rightarrow> DocumentMeta \<Rightarrow> bool" where
  "same_meta doc d =
     (doc_id doc = doc_id d \<and> title doc = title d \<and> doc_type doc = doc_type d
      \<and> category doc = category d \<and> date doc = date d \<and> tags doc = tags d
      \<and> summary doc = summary d)"

section \<open>Example trees\<close>

text \<open>
  A markdown file with front matter \<open>fm\<close> (its text is not JSON), a sidecar file on which
  \<^verbatim>\<open>JSON.parse\<close> returns \<open>m\<close> (\<open>None\<close>: the text is malformed), and a root directory
  whose \<^verbatim>\<open>BRAIN_PATH\<close> \<^verbatim>\<open>/home/second-brain\<close> holds the given type folders.
\<close>

definition markdown :: "meta_fields \<Rightarrow> node" where
  "markdown fm =
     File \<lparr> matter_data = Some (Fields fm), matter_content = ''text'', json_parse = None \<rparr>"

definition sidecar :: "parsed option \<Rightarrow> node" where
  "sidecar m =
     File \<lparr> matter_data = Some (Fields no_fields), matter_content = [], json_parse = m \<rparr>"

definition brain0 :: "string list" where
  "brain0 = [''home'', ''second-brain'']"

definition in_brain :: "(string \<times> node) list \<Rightarrow> node" where
  "in_brain types = Dir [(''home'', Dir [(''second-brain'', Dir types)])]"

text \<open>
  A collation for the examples: strings are compared letter by letter without regard to
  case, and strings that differ only in case by the case of their letters, lower case
  first; characters that are not letters count by their codes. On the strings of the
  examples it agrees with the default collation of the Unicode Collation Algorithm:
  \<^verbatim>\<open>apple\<close> is before \<^verbatim>\<open>Banana\<close>.
\<close>

definition fold_case :: "char \<Rightarrow> nat" where
  "fold_case c =
     (if 65 \<le> (of_char c :: nat) \<and> (of_char c :: nat) \<le> 90 then of_char c + 32 else of_char c)"

definition is_upper :: "char \<Rightarrow> bool" where
  "is_upper c = (65 \<le> (of_char c :: nat) \<and> (of_char c :: nat) \<le> 90)"

definition alphabetic :: "string \<Rightarrow> string \<Rightarrow> int" where
  "alphabetic a b =
     (if map fold_case a < map fold_case b then - 1
      else if map fold_case b < map fold_case a then 1
      else if map is_upper a < map is_upper b then - 1
      else if map is_upper b < map is_upper a then 1
      else 0)"

text \<open>\<^verbatim>\<open>projects/foo/body.md\<close>\<close>

definition fs_project_folder :: node where
  "fs_project_folder =
     in_brain [(''projects'', Dir [(''foo'', Dir [(''body.md'', markdown no_fields)])])]"

text \<open>\<^verbatim>\<open>projects/foo/bar/body.md\<close>\<close>

definition fs_nested :: node where
  "fs_nested =
     in_brain [(''projects'', Dir [(''foo'', Dir [(''bar'', Dir [(''body.md'', markdown no_fields)])])])]"

text \<open>\<^verbatim>\<open>journals/my-note.md\<close>\<close>

definition fs_flat_dashed :: node where
  "fs_flat_dashed = in_brain [(''journals'', Dir [(''my-note.md'', markdown no_fields)])]"

text \<open>\<^verbatim>\<open>journals/2026-01-28.md\<close>\<close>

definition fs_journal :: node where
  "fs_journal = in_brain [(''journals'', Dir [(''2026-01-28.md'', markdown no_fields)])]"

text \<open>\<^verbatim>\<open>journals/a.mdb.md\<close>\<close>

definition fs_inner_md :: node where
  "fs_inner_md = in_brain [(''journals'', Dir [(''a.mdb.md'', markdown no_fields)])]"

text \<open>
  Three document folders under \<^verbatim>\<open>concepts\<close>: two dated \<^verbatim>\<open>2024-01-01\<close> and
  \<^verbatim>\<open>2024-06-01\<close> in their front matter, one undated.
\<close>

definition fs_dated :: node where
  "fs_dated =
     in_brain [(''concepts'', Dir
       [(''alpha'', Dir [(''body.md'', markdown (no_fields\<lparr> f_date := Some ''2024-01-01'' \<rparr>))]),
        (''beta'', Dir [(''body.md'', markdown (no_fields\<lparr> f_date := Some ''2024-06-01'' \<rparr>))]),
        (''gamma'', Dir [(''body.md'', markdown no_fields)])])]"




text \<open>
  A folder whose front matter is \<^verbatim>\<open>{title: "A"}\<close> and whose sidecar is
  \<^verbatim>\<open>{title: "B", date: "2024-01-01"}\<close>, as the project document folder \<^verbatim>\<open>projects/foo\<close>
  and as the subdocument folder \<^verbatim>\<open>projects/cat/bar\<close>; a folder whose front matter and
  sidecar are both empty; a folder whose front matter has the empty tag array and whose
  sidecar has tags.
\<close>

definition folder_both_sources :: "(string \<times> node) list" where
  "folder_both_sources =
     [(''body.md'', markdown (no_fields\<lparr> f_title := Some ''A'' \<rparr>)),
      (''meta.json'',
         sidecar (Some (Fields (no_fields\<lparr> f_title := Some ''B'', f_date := Some ''2024-01-01'' \<rparr>))))]"

definition fs_both_sources :: node where
  "fs_both_sources = in_brain [(''projects'', Dir [(''foo'', Dir folder_both_sources)])]"

definition fs_sub_both_sources :: node where
  "fs_sub_both_sources =
     in_brain [(''projects'', Dir [(''cat'', Dir [(''bar'', Dir folder_both_sources)])])]"

text \<open>
  A folder whose front matter and sidecar both have all four fields, with different
  values.
\<close>

definition front_all :: meta_fields where
  "front_all = \<lparr> f_title = Some ''A'', f_date = Some ''2025-01-01'',
                 f_tags = Some (Arr [Str ''a'']), f_summary = Some ''front'' \<rparr>"

definition side_all :: meta_fields where
  "side_all = \<lparr> f_title = Some ''B'', f_date = Some ''2024-01-01'',
                f_tags = Some (Arr [Str ''b'']), f_summary = Some ''side'' \<rparr>"

definition folder_all_fields :: "(string \<times> node) list" where
  "folder_all_fields =
     [(''body.md'', markdown front_all), (''meta.json'', sidecar (Some (Fields side_all)))]"

definition fs_all_fields :: node where
  "fs_all_fields = in_brain [(''concepts'', Dir [(''x'', Dir folder_all_fields)])]"

definition folder_empty_sources :: "(string \<times> node) list" where
  "folder_empty_sources =
     [(''body.md'', markdown no_fields), (''meta.json'', sidecar (Some (Fields no_fields)))]"

definition folder_empty_tags :: "(string \<times> node) list" where
  "folder_empty_tags =
     [(''body.md'', markdown (no_fields\<lparr> f_tags := Some (Arr []) \<rparr>)),
      (''meta.json'', sidecar (Some (Fields (no_fields\<lparr> f_tags := Some (Arr [Str ''x'']) \<rparr>))))]"

text \<open>A project folder whose \<^verbatim>\<open>sections\<close> entry is a regular file.\<close>

definition fs_sections_file :: node where
  "fs_sections_file =
     in_brain [(''projects'', Dir [(''foo'', Dir
        [(''body.md'', markdown no_fields), (''sections'', markdown no_fields)])])]"

text \<open>A project folder with a section, \<^verbatim>\<open>projects/foo/sections/intro.md\<close>.\<close>

definition fs_with_sections :: node where
  "fs_with_sections =
     in_brain [(''projects'', Dir [(''foo'', Dir
        [(''body.md'', markdown no_fields),
         (''sections'', Dir [(''intro.md'', markdown no_fields)])])])]"

text \<open>A project folder whose \<^verbatim>\<open>meta.json\<close> does not parse.\<close>

definition fs_malformed_sidecar :: node where
  "fs_malformed_sidecar =
     in_brain [(''projects'', Dir [(''foo'', Dir
        [(''body.md'', markdown (no_fields\<lparr> f_title := Some ''A'' \<rparr>)),
         (''meta.json'', sidecar None)])])]"

text \<open>A project folder whose \<^verbatim>\<open>meta.json\<close> holds the text \<^verbatim>\<open>null\<close>.\<close>

definition fs_null_sidecar :: node where
  "fs_null_sidecar =
     in_brain [(''projects'', Dir [(''foo'', Dir
        [(''body.md'', markdown no_fields), (''meta.json'', sidecar (Some Is_null))])])]"

text \<open>A flat file whose front matter is not YAML.\<close>

definition fs_malformed_yaml :: node where
  "fs_malformed_yaml =
     in_brain [(''journals'', Dir
        [(''broken.md'', File \<lparr> matter_data = None, matter_content = [], json_parse = None \<rparr>)])]"

text \<open>A project folder whose front matter is \<^verbatim>\<open>tags: work\<close>.\<close>

definition fs_tags_string :: node where
  "fs_tags_string =
     in_brain [(''projects'', Dir [(''foo'', Dir
        [(''body.md'', markdown (no_fields\<lparr> f_tags := Some (Str ''work'') \<rparr>))])])]"

section \<open>Properties\<close>

lemma and_then_simps [simp]:
  "and_then (Inl e) f = Inl e"
  "and_then (Inr v) f = f v"
  by (simp_all add: and_then_def)

lemma get_prop_simps [simp]:
  "get_prop field (Fields m) = Inr (field m)"
  "get_prop field Is_null = Inl TypeError"
  by (simp_all add: get_prop_def)

lemma and_then_Inr: "and_then x f = Inr r \<longleftrightarrow> (\<exists>v. x = Inr v \<and> f v = Inr r)"
  by (cases x) simp_all

lemmas model_defs =
  getAllDocuments_def scan_type_def readdirSync_def scan_entry_def scan_sub_entry_def
  getBodyContent_def getMetaFromFile_def readFileSync_def matter_def or_prop_def no_fields_def
  endsWith_def slice_0_m1_def replace_dashes_def or_else_def or_empty_def truthy_def
  truthy_value_def js_sort_def compare_docs_def getDocument_def path_join_def resolve_def
  existsSync_def append_md_def path_ends_md_def read_sections_def

lemmas example_defs = Let_def markdown_def sidecar_def brain0_def in_brain_def
  alphabetic_def fold_case_def is_upper_def

subsection \<open>Indexer and loader on the same document\<close>

text \<open>
  C1. Every record of the indexer should load again, by its identifier, to a document
  with the same title, type, category, date, tags and summary; in particular the
  category should agree for a project document folder directly under \<^verbatim>\<open>projects\<close>.
  For the tree that holds only \<^verbatim>\<open>projects/foo/body.md\<close> the indexer lists the document
  \<^verbatim>\<open>projects/foo\<close> with category \<^verbatim>\<open>foo\<close>, and the loader returns the same document
  with no category: the loader derives the category from the number of segments of the
  identifier, the indexer from the shape of the folder.
\<close>

theorem roundtrip_category_project_folder:
  "getAllDocuments localeCompare brain0 fs_project_folder =
     Inr [\<lparr> doc_id = ''projects/foo'', title = ''foo'', doc_type = ''project'',
            category = Some ''foo'', date = None, tags = Some (Arr []), summary = None \<rparr>]
   \<and> getDocument brain0 fs_project_folder ''projects/foo'' =
     Inr (Some \<lparr> doc_id = ''projects/foo'', title = ''foo'', doc_type = ''project'',
                 category = None, date = None, tags = Some (Arr []), summary = None,
                 content = ''text'', sections = Some [] \<rparr>)"
  by (simp add: model_defs example_defs fs_project_folder_def)

subsection \<open>Title fallback\<close>

text \<open>
  C4. The title of every document, of any shape, should be the front matter title,
  else the sidecar title, else the last segment of the identifier with dashes replaced
  by spaces. For the flat file \<^verbatim>\<open>journals/my-note.md\<close> without a front matter title the
  indexer keeps the dashes: the title is \<^verbatim>\<open>my-note\<close>, while the last segment of the
  identifier with dashes replaced is \<^verbatim>\<open>my note\<close>, which is also the title the loader
  gives the same document.
\<close>

theorem flat_file_title_keeps_dashes:
  "getAllDocuments localeCompare brain0 fs_flat_dashed =
     Inr [\<lparr> doc_id = ''journals/my-note'', title = ''my-note'', doc_type = ''journal'',
            category = None, date = Some ''my-note'', tags = Some (Arr []), summary = None \<rparr>]
   \<and> replace_dashes (last (js_split CHR ''/'' ''journals/my-note'')) = ''my note''
   \<and> getDocument brain0 fs_flat_dashed ''journals/my-note'' =
     Inr (Some \<lparr> doc_id = ''journals/my-note'', title = ''my note'', doc_type = ''journal'',
                 category = None, date = Some ''my-note'', tags = Some (Arr []), summary = None,
                 content = ''text'', sections = None \<rparr>)"
  by (simp add: model_defs example_defs fs_flat_dashed_def)

subsection \<open>Flat files\<close>

text \<open>
  C7. A markdown file directly under a type folder should yield one document without
  category whose date is the front matter date or else the file name without its
  extension. The indexer removes the first occurrence of \<^verbatim>\<open>.md\<close> in the name, which is
  not always the extension: \<^verbatim>\<open>journals/a.mdb.md\<close> gets the date \<^verbatim>\<open>ab.md\<close> (and an
  identifier the loader cannot find), where the name without its extension is
  \<^verbatim>\<open>a.mdb\<close>.
\<close>

theorem flat_file_date_first_md_removed:
  "getAllDocuments localeCompare brain0 fs_inner_md =
     Inr [\<lparr> doc_id = ''journals/ab.md'', title = ''ab.md'', doc_type = ''journal'',
            category = None, date = Some ''ab.md'', tags = Some (Arr []), summary = None \<rparr>]
   \<and> getDocument brain0 fs_inner_md ''journals/ab.md'' = Inr None"
  by (simp add: model_defs example_defs fs_inner_md_def)

subsection \<open>Order of the listing\<close>

lemma set_insert_by: "set (insert_by cmp x ys) = insert x (set ys)"
  by (induction ys) auto













subsection \<open>Identifiers\<close>






lemma for_each_member:
  "for_each body xs = Inr ds \<Longrightarrow> d \<in> set ds \<Longrightarrow> \<exists>x\<in>set xs. \<exists>r. body x = Inr r \<and> d \<in> set r"
  by (induction xs arbitrary: ds) (auto split: sum.splits)



lemma set_js_sort: "set (js_sort cmp xs) = set xs"
  unfolding js_sort_def by (induction xs) (simp_all add: set_insert_by)







lemma scan_entry_category_folder:
  assumes "\<not> has_body subs"
  shows "scan_entry type (name, Dir subs) = for_each (scan_sub_entry type name) subs"
  using assms by (simp add: scan_entry_def has_body_def readdirSync_def Let_def)





lemma scan_type_for_each:
  "scan_type brain fs type = Inr r \<Longrightarrow>
   for_each (scan_entry type) (type_entries brain fs type) = Inr r"
  by (auto simp: scan_type_def type_entries_def entries_of_def readdirSync_def Let_def
      split: if_splits option.splits node.splits)











lemmas clash_defs = tree_clash_free_def clash_free_def type_entries_def entries_of_def
  is_category_folder_def has_body_def stems_def base_names_def strip_extension_def
  plain_extensions_def md_at_end_only_def no_slash_def



subsection \<open>Reading body, front matter and sidecar\<close>

lemma list_ex_name: "list_ex (\<lambda>e. fst e = n) subs \<longleftrightarrow> map_of subs n \<noteq> None"
  by (induction subs) auto

lemma has_body_primary: "has_body subs \<longleftrightarrow> primary_body (Dir subs) \<noteq> None"
proof -
  have "has_body subs \<longleftrightarrow>
      list_ex (\<lambda>e. fst e = ''body.md'') subs \<or> list_ex (\<lambda>e. fst e = ''index.md'') subs"
    by (auto simp: has_body_def list_ex_iff)
  then show ?thesis
    by (auto simp: list_ex_name primary_body_def)
qed

lemma getBodyContent_cases:
  "getBodyContent b nd =
     (case primary_body nd of
        Some (Dir es) \<Rightarrow> Inl EISDIR
      | Some (File f) \<Rightarrow> matter f
      | None \<Rightarrow>
          if b then (case nd of Dir es \<Rightarrow> Inl EISDIR | File f \<Rightarrow> matter f)
          else Inr ([], Fields no_fields))"
  by (cases nd)
    (auto simp: getBodyContent_def primary_body_def readFileSync_def Let_def
      split: option.splits node.splits)

lemma getBodyContent_front_matter:
  "front_matter b nd = Some fm \<Longrightarrow> \<exists>body. getBodyContent b nd = Inr (body, fm)"
  by (auto simp: getBodyContent_cases front_matter_def matter_def
      split: option.splits node.splits if_splits)

lemma getBodyContent_file:
  "primary_body nd = Some (File f) \<Longrightarrow> matter_data f = Some fm \<Longrightarrow>
   getBodyContent b nd = Inr (matter_content f, fm)"
  by (simp add: getBodyContent_cases matter_def)

lemma getMetaFromFile_sidecar:
  "getMetaFromFile (child nd ''meta.json'') =
     (if sidecar_null nd then Is_null else Fields (sidecar_fields nd))"
  by (auto simp: getMetaFromFile_def sidecar_null_def sidecar_fields_def readFileSync_def
      split: option.splits node.splits parsed.splits)

lemma or_prop_Fields:
  "or_prop is_true field (Fields m) meta =
     (if is_true (field m) then Inr (field m) else get_prop field meta)"
  by (simp add: or_prop_def)

lemma or_prop_Is_null: "or_prop is_true field Is_null meta = Inl TypeError"
  by (simp add: or_prop_def)

lemma spec_precedence_or: "spec_precedence a b = (if truthy a then a else b)"
  by (auto simp: spec_precedence_def truthy_def split: option.splits)

text \<open>
  The four properties of a document that has a sidecar, read in sequence: a
  \<^verbatim>\<open>TypeError\<close> when the front matter is \<^verbatim>\<open>null\<close>, or when the sidecar is \<^verbatim>\<open>null\<close> and
  one of the four fields of the front matter is not truthy; else each is the front
  matter's value when truthy and the sidecar's otherwise.
\<close>

lemma four_fields:
  "and_then (or_prop truthy f_title fm (getMetaFromFile (child nd ''meta.json''))) (\<lambda>t.
   and_then (or_prop truthy f_date fm (getMetaFromFile (child nd ''meta.json''))) (\<lambda>d.
   and_then (or_prop truthy_value f_tags fm (getMetaFromFile (child nd ''meta.json''))) (\<lambda>g.
   and_then (or_prop truthy f_summary fm (getMetaFromFile (child nd ''meta.json''))) (\<lambda>s.
     K t d g s)))) =
   (if fields_readable nd fm
    then K (spec_precedence (f_title (fields_of fm)) (f_title (sidecar_fields nd)))
           (spec_precedence (f_date (fields_of fm)) (f_date (sidecar_fields nd)))
           (or_value (f_tags (fields_of fm)) (f_tags (sidecar_fields nd)))
           (spec_precedence (f_summary (fields_of fm)) (f_summary (sidecar_fields nd)))
    else Inl TypeError)"
proof (cases fm)
  case Is_null
  then show ?thesis
    by (simp add: or_prop_Is_null fields_readable_def)
next
  case (Fields m)
  show ?thesis
  proof (cases "sidecar_null nd")
    case True
    with Fields show ?thesis
      by (auto simp: getMetaFromFile_sidecar or_prop_Fields fields_readable_def
          fields_complete_def fields_of_def spec_precedence_or or_value_def)
  next
    case False
    with Fields show ?thesis
      by (simp add: getMetaFromFile_sidecar or_prop_Fields fields_readable_def
          fields_of_def spec_precedence_or or_value_def)
  qed
qed

text \<open>The four properties of a document without sidecar, read in sequence.\<close>

lemma four_props:
  "and_then (get_prop f_title fm) (\<lambda>t.
   and_then (get_prop f_date fm) (\<lambda>d.
   and_then (get_prop f_tags fm) (\<lambda>g.
   and_then (get_prop f_summary fm) (\<lambda>s.
     K t d g s)))) =
   (case fm of
      Is_null \<Rightarrow> Inl TypeError
    | Fields m \<Rightarrow> K (f_title m) (f_date m) (f_tags m) (f_summary m))"
  by (cases fm) simp_all

subsection \<open>The documents of the four shapes\<close>

lemma scan_entry_document_folder:
  assumes "has_body subs" and "front_matter (endsWith name ''.md'') (Dir subs) = Some fm"
  shows "scan_entry type (name, Dir subs) =
     (if fields_readable (Dir subs) fm then
        Inr [\<lparr> doc_id = type @ ''/'' @ name,
               title = or_else (spec_precedence (f_title (fields_of fm))
                                  (f_title (sidecar_fields (Dir subs))))
                         (replace_dashes name),
               doc_type = slice_0_m1 type,
               category = (if type = ''projects'' then Some name else None),
               date = spec_precedence (f_date (fields_of fm)) (f_date (sidecar_fields (Dir subs))),
               tags = Some (or_empty (or_value (f_tags (fields_of fm))
                                        (f_tags (sidecar_fields (Dir subs))))),
               summary = spec_precedence (f_summary (fields_of fm))
                           (f_summary (sidecar_fields (Dir subs))) \<rparr>]
      else Inl TypeError)"
proof -
  from getBodyContent_front_matter [OF assms(2)] obtain body
    where "getBodyContent (endsWith name ''.md'') (Dir subs) = Inr (body, fm)"
    by auto
  with assms(1) show ?thesis
    by (simp add: scan_entry_def readdirSync_def has_body_def Let_def four_fields
        del: child.simps)
qed

lemma scan_sub_entry_folder:
  assumes "front_matter (endsWith name ''.md'') (Dir subs) = Some fm"
  shows "scan_sub_entry type c (name, Dir subs) =
     (if fields_readable (Dir subs) fm then
        Inr [\<lparr> doc_id = type @ ''/'' @ c @ ''/'' @ name,
               title = or_else (spec_precedence (f_title (fields_of fm))
                                  (f_title (sidecar_fields (Dir subs))))
                         (replace_dashes name),
               doc_type = slice_0_m1 type,
               category = Some c,
               date = spec_precedence (f_date (fields_of fm)) (f_date (sidecar_fields (Dir subs))),
               tags = Some (or_empty (or_value (f_tags (fields_of fm))
                                        (f_tags (sidecar_fields (Dir subs))))),
               summary = spec_precedence (f_summary (fields_of fm))
                           (f_summary (sidecar_fields (Dir subs))) \<rparr>]
      else Inl TypeError)"
proof -
  from getBodyContent_front_matter [OF assms] obtain body
    where "getBodyContent (endsWith name ''.md'') (Dir subs) = Inr (body, fm)"
    by auto
  then show ?thesis
    by (simp add: scan_sub_entry_def Let_def four_fields del: child.simps)
qed

lemma scan_sub_entry_file:
  assumes "endsWith name ''.md''" and "matter_data f = Some (Fields m)"
  shows "scan_sub_entry type c (name, File f) =
     Inr [\<lparr> doc_id = type @ ''/'' @ c @ ''/'' @ js_replace ''.md'' [] name,
            title = or_else (f_title m) (replace_dashes (js_replace ''.md'' [] name)),
            doc_type = slice_0_m1 type,
            category = Some c,
            date = f_date m,
            tags = Some (or_empty (f_tags m)),
            summary = f_summary m \<rparr>]"
  using assms
  by (simp add: scan_sub_entry_def getBodyContent_cases primary_body_def matter_def Let_def)

lemma scan_entry_flat_file:
  assumes "endsWith name ''.md''" and "matter_data f = Some (Fields m)"
  shows "scan_entry type (name, File f) =
     Inr [\<lparr> doc_id = type @ ''/'' @ js_replace ''.md'' [] name,
            title = or_else (f_title m) (js_replace ''.md'' [] name),
            doc_type = slice_0_m1 type,
            category = None,
            date = Some (or_else (f_date m) (js_replace ''.md'' [] name)),
            tags = Some (or_empty (f_tags m)),
            summary = f_summary m \<rparr>]"
  using assms
  by (simp add: scan_entry_def getBodyContent_cases primary_body_def matter_def Let_def)


subsection \<open>Classification of folders\<close>









lemmas reading_defs = readable_def front_matter_def primary_body_def fields_readable_def
  sidecar_null_def fields_complete_def sidecar_fields_def fields_of_def md_directory_def


subsection \<open>Precedence of front matter over the sidecar\<close>

lemma read_sections_readable:
  "sections_readable nd \<Longrightarrow> \<exists>secs. read_sections (child nd ''sections'') = Inr secs"
  by (auto simp: sections_readable_def read_sections_def readdirSync_def
      split: option.splits node.splits)

lemma read_sections_unreadable:
  "\<not> sections_readable nd \<Longrightarrow> read_sections (child nd ''sections'') = Inl ENOTDIR"
  by (auto simp: sections_readable_def read_sections_def readdirSync_def
      split: option.splits node.splits)

lemma loader_path_exists: "loader_path brain fs ident = Some p \<Longrightarrow> \<exists>nd. resolve fs p = Some nd"
  by (auto simp: loader_path_def existsSync_def Let_def split: if_splits)

lemma getDocument_none:
  "loader_path brain fs ident = None \<Longrightarrow> getDocument brain fs ident = Inr None"
  by (auto simp: getDocument_def loader_path_def Let_def split: if_splits)

lemma getDocument_at:
  assumes "loader_path brain fs ident = Some p" and "resolve fs p = Some nd"
  shows "getDocument brain fs ident =
     (if isDirectory nd then
        and_then (getBodyContent (path_ends_md p) nd) (\<lambda>(body, frontmatter).
        and_then (read_sections (child nd ''sections'')) (\<lambda>secs.
        and_then (or_prop truthy f_title frontmatter (getMetaFromFile (child nd ''meta.json''))) (\<lambda>t.
        and_then (or_prop truthy f_date frontmatter (getMetaFromFile (child nd ''meta.json''))) (\<lambda>d.
        and_then (or_prop truthy_value f_tags frontmatter (getMetaFromFile (child nd ''meta.json''))) (\<lambda>g.
        and_then (or_prop truthy f_summary frontmatter (getMetaFromFile (child nd ''meta.json''))) (\<lambda>s.
          Inr (Some
            \<lparr> doc_id = ident,
              title = or_else t (replace_dashes (last (js_split CHR ''/'' ident))),
              doc_type = slice_0_m1 (hd (js_split CHR ''/'' ident)),
              category = (if length (js_split CHR ''/'' ident) > 2
                          then Some (js_split CHR ''/'' ident ! 1) else None),
              date = d,
              tags = Some (or_empty g),
              summary = s,
              content = body,
              sections = Some secs \<rparr>)))))))
      else
        and_then (getBodyContent (path_ends_md p) nd) (\<lambda>(body, frontmatter).
        and_then (get_prop f_title frontmatter) (\<lambda>t.
        and_then (get_prop f_date frontmatter) (\<lambda>d.
        and_then (get_prop f_tags frontmatter) (\<lambda>g.
        and_then (get_prop f_summary frontmatter) (\<lambda>s.
          Inr (Some
            \<lparr> doc_id = ident,
              title = or_else t (replace_dashes (last (js_split CHR ''/'' ident))),
              doc_type = slice_0_m1 (hd (js_split CHR ''/'' ident)),
              category = (if length (js_split CHR ''/'' ident) > 2
                          then Some (js_split CHR ''/'' ident ! 1) else None),
              date = Some (or_else d (last (js_split CHR ''/'' ident))),
              tags = Some (or_empty g),
              summary = s,
              content = body,
              sections = None \<rparr>)))))))"
  using assms
  by (auto simp: getDocument_def loader_path_def Let_def split: if_splits)

text \<open>The document that the loader returns for a directory whose body can be read.\<close>

lemma getDocument_directory:
  assumes p: "loader_path brain fs ident = Some p" and nd: "resolve fs p = Some nd"
    and dir: "isDirectory nd" and fm: "getBodyContent (path_ends_md p) nd = Inr (body, fm)"
  shows "getDocument brain fs ident =
     (if \<not> sections_readable nd then Inl ENOTDIR
      else if \<not> fields_readable nd fm then Inl TypeError
      else Inr (Some
        \<lparr> doc_id = ident,
          title = or_else (spec_precedence (f_title (fields_of fm)) (f_title (sidecar_fields nd)))
                    (replace_dashes (last (js_split CHR ''/'' ident))),
          doc_type = slice_0_m1 (hd (js_split CHR ''/'' ident)),
          category = (if length (js_split CHR ''/'' ident) > 2
                      then Some (js_split CHR ''/'' ident ! 1) else None),
          date = spec_precedence (f_date (fields_of fm)) (f_date (sidecar_fields nd)),
          tags = Some (or_empty (or_value (f_tags (fields_of fm)) (f_tags (sidecar_fields nd)))),
          summary = spec_precedence (f_summary (fields_of fm)) (f_summary (sidecar_fields nd)),
          content = body,
          sections = Some (case read_sections (child nd ''sections'') of
                             Inr secs \<Rightarrow> secs | Inl e \<Rightarrow> []) \<rparr>))"
proof (cases "sections_readable nd")
  case False
  from read_sections_unreadable [OF False] False dir fm show ?thesis
    by (simp add: getDocument_at [OF p nd])
next
  case True
  from read_sections_readable [OF True] obtain secs
    where "read_sections (child nd ''sections'') = Inr secs"
    by auto
  with True dir fm show ?thesis
    by (simp add: getDocument_at [OF p nd] four_fields)
qed

text \<open>The document that the loader returns for a regular file.\<close>

lemma getDocument_file:
  assumes p: "loader_path brain fs ident = Some p" and nd: "resolve fs p = Some nd"
    and reg: "\<not> isDirectory nd" and fm: "getBodyContent (path_ends_md p) nd = Inr (body, fm)"
  shows "getDocument brain fs ident =
     (case fm of
        Is_null \<Rightarrow> Inl TypeError
      | Fields m \<Rightarrow>
          Inr (Some
            \<lparr> doc_id = ident,
              title = or_else (f_title m) (replace_dashes (last (js_split CHR ''/'' ident))),
              doc_type = slice_0_m1 (hd (js_split CHR ''/'' ident)),
              category = (if length (js_split CHR ''/'' ident) > 2
                          then Some (js_split CHR ''/'' ident ! 1) else None),
              date = Some (or_else (f_date m) (last (js_split CHR ''/'' ident))),
              tags = Some (or_empty (f_tags m)),
              summary = f_summary m,
              content = body,
              sections = None \<rparr>))"
  using reg fm by (simp add: getDocument_at [OF p nd] four_props)

lemma loader_path_at:
  assumes "path_join brain ident = p" and "resolve fs p = Some nd"
  shows "loader_path brain fs ident = Some p"
  using assms by (simp add: loader_path_def existsSync_def)

lemma loader_path_direct:
  assumes "resolve fs (path_join brain ident) = Some nd"
  shows "loader_path brain fs ident = Some (path_join brain ident)"
  using assms by (rule loader_path_at [OF refl])

lemma sidecar_fields_parsed:
  "child nd ''meta.json'' = Some (File s) \<Longrightarrow> json_parse s = Some (Fields sc) \<Longrightarrow>
   sidecar_fields nd = sc \<and> \<not> sidecar_null nd"
  by (simp add: sidecar_fields_def sidecar_null_def)

lemma or_else_spec:
  "or_else (spec_precedence a b) d =
     (case spec_precedence a b of Some t \<Rightarrow> if t \<noteq> [] then t else d | None \<Rightarrow> d)"
  by (simp add: or_else_def split: option.splits)

lemma or_empty_or_value:
  "or_empty (or_value a b) =
     (if truthy_value a then the a else if truthy_value b then the b else Arr [])"
  by (auto simp: or_empty_def or_value_def truthy_value_def split: option.splits)

text \<open>
  C2, as amended. For a folder with a primary body file whose front matter parses to a
  record and a sidecar that parses to a record, as a document folder of the indexer, as
  a subdocument folder of the indexer, and in the loader: date and summary are the front
  matter value when it is present and non-empty, otherwise the sidecar value when
  present, otherwise absent; the title is the front matter title when non-empty,
  otherwise the sidecar title when non-empty, otherwise the folder name (in the loader
  the last segment of the identifier) with dashes replaced by spaces, and is never
  absent; tags are the front matter value when it is truthy, as every array is, also the
  empty one, otherwise the sidecar value when truthy, otherwise the empty array, and are
  never absent.
\<close>

theorem metadata_precedence:
  assumes body: "primary_body (Dir subs) = Some (File b)"
    and front: "matter_data b = Some (Fields fm)"
    and meta: "child (Dir subs) ''meta.json'' = Some (File s)"
    and parse: "json_parse s = Some (Fields sc)"
  shows "(\<exists>d. scan_entry type (name, Dir subs) = Inr [d]
          \<and> date d = spec_precedence (f_date fm) (f_date sc)
          \<and> summary d = spec_precedence (f_summary fm) (f_summary sc)
          \<and> title d = (case spec_precedence (f_title fm) (f_title sc) of
                         Some t \<Rightarrow> if t \<noteq> [] then t else replace_dashes name
                       | None \<Rightarrow> replace_dashes name)
          \<and> tags d = Some (if truthy_value (f_tags fm) then the (f_tags fm)
                            else if truthy_value (f_tags sc) then the (f_tags sc)
                            else Arr []))
       \<and> (\<exists>d. scan_sub_entry type c (name, Dir subs) = Inr [d]
          \<and> date d = spec_precedence (f_date fm) (f_date sc)
          \<and> summary d = spec_precedence (f_summary fm) (f_summary sc)
          \<and> title d = (case spec_precedence (f_title fm) (f_title sc) of
                         Some t \<Rightarrow> if t \<noteq> [] then t else replace_dashes name
                       | None \<Rightarrow> replace_dashes name)
          \<and> tags d = Some (if truthy_value (f_tags fm) then the (f_tags fm)
                            else if truthy_value (f_tags sc) then the (f_tags sc)
                            else Arr []))
       \<and> (resolve fs (path_join brain ident) = Some (Dir subs) \<and> sections_readable (Dir subs) \<longrightarrow>
          (\<exists>d. getDocument brain fs ident = Inr (Some d)
             \<and> date d = spec_precedence (f_date fm) (f_date sc)
             \<and> summary d = spec_precedence (f_summary fm) (f_summary sc)
             \<and> title d = (case spec_precedence (f_title fm) (f_title sc) of
                            Some t \<Rightarrow> if t \<noteq> [] then t
                                      else replace_dashes (last (js_split CHR ''/'' ident))
                          | None \<Rightarrow> replace_dashes (last (js_split CHR ''/'' ident)))
             \<and> tags d = Some (if truthy_value (f_tags fm) then the (f_tags fm)
                               else if truthy_value (f_tags sc) then the (f_tags sc)
                               else Arr [])))"
proof -
  have hb: "has_body subs"
    using body by (simp add: has_body_primary)
  have fm: "front_matter e (Dir subs) = Some (Fields fm)" for e
    using body front by (simp add: front_matter_def)
  note sc = sidecar_fields_parsed [OF meta parse]
  have ok: "fields_readable (Dir subs) (Fields fm)"
    using sc by (simp add: fields_readable_def)
  have entry: "\<exists>d. scan_entry type (name, Dir subs) = Inr [d]
          \<and> date d = spec_precedence (f_date fm) (f_date sc)
          \<and> summary d = spec_precedence (f_summary fm) (f_summary sc)
          \<and> title d = (case spec_precedence (f_title fm) (f_title sc) of
                         Some t \<Rightarrow> if t \<noteq> [] then t else replace_dashes name
                       | None \<Rightarrow> replace_dashes name)
          \<and> tags d = Some (if truthy_value (f_tags fm) then the (f_tags fm)
                            else if truthy_value (f_tags sc) then the (f_tags sc)
                            else Arr [])"
    using ok sc
    by (simp add: scan_entry_document_folder [OF hb fm] fields_of_def or_else_spec
        or_empty_or_value)
  have sub: "\<exists>d. scan_sub_entry type c (name, Dir subs) = Inr [d]
          \<and> date d = spec_precedence (f_date fm) (f_date sc)
          \<and> summary d = spec_precedence (f_summary fm) (f_summary sc)
          \<and> title d = (case spec_precedence (f_title fm) (f_title sc) of
                         Some t \<Rightarrow> if t \<noteq> [] then t else replace_dashes name
                       | None \<Rightarrow> replace_dashes name)
          \<and> tags d = Some (if truthy_value (f_tags fm) then the (f_tags fm)
                            else if truthy_value (f_tags sc) then the (f_tags sc)
                            else Arr [])"
    using ok sc
    by (simp add: scan_sub_entry_folder [OF fm] fields_of_def or_else_spec or_empty_or_value)
  have load: "resolve fs (path_join brain ident) = Some (Dir subs) \<and> sections_readable (Dir subs) \<longrightarrow>
          (\<exists>d. getDocument brain fs ident = Inr (Some d)
             \<and> date d = spec_precedence (f_date fm) (f_date sc)
             \<and> summary d = spec_precedence (f_summary fm) (f_summary sc)
             \<and> title d = (case spec_precedence (f_title fm) (f_title sc) of
                            Some t \<Rightarrow> if t \<noteq> [] then t
                                      else replace_dashes (last (js_split CHR ''/'' ident))
                          | None \<Rightarrow> replace_dashes (last (js_split CHR ''/'' ident)))
             \<and> tags d = Some (if truthy_value (f_tags fm) then the (f_tags fm)
                               else if truthy_value (f_tags sc) then the (f_tags sc)
                               else Arr []))"
  proof
    assume a: "resolve fs (path_join brain ident) = Some (Dir subs) \<and> sections_readable (Dir subs)"
    then have res: "resolve fs (path_join brain ident) = Some (Dir subs)"
      by simp
    have gb: "getBodyContent (path_ends_md (path_join brain ident)) (Dir subs)
        = Inr (matter_content b, Fields fm)"
      using body front by (rule getBodyContent_file)
    from a ok sc
    show "\<exists>d. getDocument brain fs ident = Inr (Some d)
             \<and> date d = spec_precedence (f_date fm) (f_date sc)
             \<and> summary d = spec_precedence (f_summary fm) (f_summary sc)
             \<and> title d = (case spec_precedence (f_title fm) (f_title sc) of
                            Some t \<Rightarrow> if t \<noteq> [] then t
                                      else replace_dashes (last (js_split CHR ''/'' ident))
                          | None \<Rightarrow> replace_dashes (last (js_split CHR ''/'' ident)))
             \<and> tags d = Some (if truthy_value (f_tags fm) then the (f_tags fm)
                               else if truthy_value (f_tags sc) then the (f_tags sc)
                               else Arr [])"
      by (simp add: getDocument_directory [OF loader_path_direct [OF res] res _ gb]
          fields_of_def or_else_spec or_empty_or_value)
  qed
  show ?thesis
    by (intro conjI) (rule entry, rule sub, rule load)
qed

text \<open>
  The example of C2: front matter \<^verbatim>\<open>{title: "A"}\<close> with sidecar
  \<^verbatim>\<open>{title: "B", date: "2024-01-01"}\<close> resolves to title \<^verbatim>\<open>A\<close> and date \<^verbatim>\<open>2024-01-01\<close>,
  for a document folder and for a subdocument folder, in the listing and in the loader;
  and where front matter and sidecar both have all four fields, the document has those
  of the front matter.
\<close>

theorem metadata_precedence_example:
  "getAllDocuments alphabetic brain0 fs_both_sources =
     Inr [\<lparr> doc_id = ''projects/foo'', title = ''A'', doc_type = ''project'',
            category = Some ''foo'', date = Some ''2024-01-01'', tags = Some (Arr []),
            summary = None \<rparr>]
   \<and> getAllDocuments alphabetic brain0 fs_sub_both_sources =
     Inr [\<lparr> doc_id = ''projects/cat/bar'', title = ''A'', doc_type = ''project'',
            category = Some ''cat'', date = Some ''2024-01-01'', tags = Some (Arr []),
            summary = None \<rparr>]
   \<and> getDocument brain0 fs_both_sources ''projects/foo'' =
     Inr (Some \<lparr> doc_id = ''projects/foo'', title = ''A'', doc_type = ''project'',
                 category = None, date = Some ''2024-01-01'', tags = Some (Arr []),
                 summary = None, content = ''text'', sections = Some [] \<rparr>)
   \<and> spec_precedence (Some ''A'') (Some ''B'') = Some ''A''
   \<and> spec_precedence None (Some ''2024-01-01'') = Some ''2024-01-01''
   \<and> scan_entry ''concepts'' (''x'', Dir folder_all_fields) =
     Inr [\<lparr> doc_id = ''concepts/x'', title = ''A'', doc_type = ''concept'',
            category = None, date = Some ''2025-01-01'', tags = Some (Arr [Str ''a'']),
            summary = Some ''front'' \<rparr>]
   \<and> scan_sub_entry ''concepts'' ''cat'' (''x'', Dir folder_all_fields) =
     Inr [\<lparr> doc_id = ''concepts/cat/x'', title = ''A'', doc_type = ''concept'',
            category = Some ''cat'', date = Some ''2025-01-01'', tags = Some (Arr [Str ''a'']),
            summary = Some ''front'' \<rparr>]
   \<and> getDocument brain0 fs_all_fields ''concepts/x'' =
     Inr (Some \<lparr> doc_id = ''concepts/x'', title = ''A'', doc_type = ''concept'',
                 category = None, date = Some ''2025-01-01'', tags = Some (Arr [Str ''a'']),
                 summary = Some ''front'', content = ''text'', sections = Some [] \<rparr>)"
proof -
  let ?fm = "no_fields\<lparr> f_title := Some ''A'' \<rparr>"
  let ?b = "\<lparr> matter_data = Some (Fields ?fm), matter_content = ''text'', json_parse = None \<rparr>"
  let ?sc = "no_fields\<lparr> f_title := Some ''B'', f_date := Some ''2024-01-01'' \<rparr>"
  let ?s = "\<lparr> matter_data = Some (Fields no_fields), matter_content = [],
              json_parse = Some (Fields ?sc) \<rparr>"
  let ?subs = "[(''body.md'', File ?b), (''meta.json'', File ?s)]"
  let ?b2 = "\<lparr> matter_data = Some (Fields front_all), matter_content = ''text'',
               json_parse = None \<rparr>"
  let ?s2 = "\<lparr> matter_data = Some (Fields no_fields), matter_content = [],
               json_parse = Some (Fields side_all) \<rparr>"
  have subs: "folder_both_sources = ?subs"
    by (simp add: folder_both_sources_def markdown_def sidecar_def)
  have body: "primary_body (Dir ?subs) = Some (File ?b)"
    by (simp add: primary_body_def)
  have front: "matter_data ?b = Some (Fields ?fm)"
    by simp
  have meta: "child (Dir ?subs) ''meta.json'' = Some (File ?s)"
    by simp
  have parse: "json_parse ?s = Some (Fields ?sc)"
    by simp
  have res: "resolve fs_both_sources (path_join brain0 ''projects/foo'') = Some (Dir ?subs)
      \<and> sections_readable (Dir ?subs)"
    by (simp add: model_defs example_defs fs_both_sources_def folder_both_sources_def
        sections_readable_def)
  have body2: "primary_body (Dir folder_all_fields) = Some (File ?b2)"
    by (simp add: primary_body_def folder_all_fields_def markdown_def)
  have front2: "matter_data ?b2 = Some (Fields front_all)"
    by simp
  have meta2: "child (Dir folder_all_fields) ''meta.json'' = Some (File ?s2)"
    by (simp add: folder_all_fields_def sidecar_def)
  have parse2: "json_parse ?s2 = Some (Fields side_all)"
    by simp
  have res2: "resolve fs_all_fields (path_join brain0 ''concepts/x'') = Some (Dir folder_all_fields)
      \<and> sections_readable (Dir folder_all_fields)"
    by (simp add: model_defs example_defs fs_all_fields_def folder_all_fields_def
        sections_readable_def)
  have run: "getAllDocuments alphabetic brain0 fs_both_sources =
     Inr [\<lparr> doc_id = ''projects/foo'', title = ''A'', doc_type = ''project'',
            category = Some ''foo'', date = Some ''2024-01-01'', tags = Some (Arr []),
            summary = None \<rparr>]"
    by (simp add: model_defs example_defs fs_both_sources_def folder_both_sources_def)
  have run_sub: "getAllDocuments alphabetic brain0 fs_sub_both_sources =
     Inr [\<lparr> doc_id = ''projects/cat/bar'', title = ''A'', doc_type = ''project'',
            category = Some ''cat'', date = Some ''2024-01-01'', tags = Some (Arr []),
            summary = None \<rparr>]"
    by (simp add: model_defs example_defs fs_sub_both_sources_def folder_both_sources_def)
  have load: "getDocument brain0 fs_both_sources ''projects/foo'' =
     Inr (Some \<lparr> doc_id = ''projects/foo'', title = ''A'', doc_type = ''project'',
                 category = None, date = Some ''2024-01-01'', tags = Some (Arr []),
                 summary = None, content = ''text'', sections = Some [] \<rparr>)"
    by (simp add: model_defs example_defs fs_both_sources_def folder_both_sources_def)
  have entry2: "scan_entry ''concepts'' (''x'', Dir folder_all_fields) =
     Inr [\<lparr> doc_id = ''concepts/x'', title = ''A'', doc_type = ''concept'',
            category = None, date = Some ''2025-01-01'', tags = Some (Arr [Str ''a'']),
            summary = Some ''front'' \<rparr>]"
    by (simp add: model_defs example_defs folder_all_fields_def front_all_def side_all_def)
  have sub2: "scan_sub_entry ''concepts'' ''cat'' (''x'', Dir folder_all_fields) =
     Inr [\<lparr> doc_id = ''concepts/cat/x'', title = ''A'', doc_type = ''concept'',
            category = Some ''cat'', date = Some ''2025-01-01'', tags = Some (Arr [Str ''a'']),
            summary = Some ''front'' \<rparr>]"
    by (simp add: model_defs example_defs folder_all_fields_def front_all_def side_all_def)
  have load2: "getDocument brain0 fs_all_fields ''concepts/x'' =
     Inr (Some \<lparr> doc_id = ''concepts/x'', title = ''A'', doc_type = ''concept'',
                 category = None, date = Some ''2025-01-01'', tags = Some (Arr [Str ''a'']),
                 summary = Some ''front'', content = ''text'', sections = Some [] \<rparr>)"
    by (simp add: model_defs example_defs fs_all_fields_def folder_all_fields_def front_all_def
        side_all_def)
  from metadata_precedence [OF body front meta parse, of "''projects''" "''foo''" "''cat''"
      fs_both_sources brain0 "''projects/foo''"]
    metadata_precedence [OF body2 front2 meta2 parse2, of "''concepts''" "''x''" "''cat''"
      fs_all_fields brain0 "''concepts/x''"]
    res res2 run run_sub load entry2 sub2 load2
  show ?thesis
    by (simp add: spec_precedence_def front_all_def side_all_def truthy_value_def)
qed

text \<open>
  C2 as stated fails for title and tags. With empty front matter and an empty sidecar
  the rule makes both absent, but the document has the title \<^verbatim>\<open>foo\<close> and the tags
  \<^verbatim>\<open>[]\<close>; with front matter tags \<^verbatim>\<open>[]\<close> and sidecar tags \<^verbatim>\<open>["x"]\<close> the rule takes the
  sidecar's, but the document has the tags \<^verbatim>\<open>[]\<close>.
\<close>

theorem metadata_precedence_counterexample:
  "scan_entry ''projects'' (''foo'', Dir folder_empty_sources) =
     Inr [\<lparr> doc_id = ''projects/foo'', title = ''foo'', doc_type = ''project'',
            category = Some ''foo'', date = None, tags = Some (Arr []), summary = None \<rparr>]
   \<and> spec_precedence None None = None
   \<and> spec_precedence_tags None None = None
   \<and> Some (Arr []) \<noteq> spec_precedence_tags None None
   \<and> scan_entry ''projects'' (''foo'', Dir folder_empty_tags) =
     Inr [\<lparr> doc_id = ''projects/foo'', title = ''foo'', doc_type = ''project'',
            category = Some ''foo'', date = None, tags = Some (Arr []), summary = None \<rparr>]
   \<and> spec_precedence_tags (Some (Arr [])) (Some (Arr [Str ''x''])) = Some (Arr [Str ''x''])
   \<and> Some (Arr []) \<noteq> spec_precedence_tags (Some (Arr [])) (Some (Arr [Str ''x'']))"
  by (simp add: model_defs example_defs folder_empty_sources_def folder_empty_tags_def
      spec_precedence_def spec_precedence_tags_def)

subsection \<open>Outcomes of the loader\<close>

lemma getBodyContent_body_directory:
  "primary_body nd = Some (Dir es) \<Longrightarrow> getBodyContent b nd = Inl EISDIR"
  by (simp add: getBodyContent_cases)

lemma getBodyContent_malformed:
  assumes "\<not> md_directory b nd" and "\<forall>es. primary_body nd \<noteq> Some (Dir es)"
    and "front_matter b nd = None"
  shows "getBodyContent b nd = Inl YAMLException"
  using assms
  by (cases nd)
    (auto simp: getBodyContent_cases front_matter_def md_directory_def matter_def
      split: option.splits node.splits if_splits)

lemma getDocument_raises:
  assumes "loader_path brain fs ident = Some p" and "resolve fs p = Some nd"
    and "getBodyContent (path_ends_md p) nd = Inl e"
  shows "getDocument brain fs ident = Inl e"
  using assms(3) by (simp add: getDocument_at [OF assms(1,2)])

lemma file_readable:
  "\<not> isDirectory nd \<Longrightarrow> sections_readable nd \<and> (fields_readable nd fm \<longleftrightarrow> fm \<noteq> Is_null)"
  by (cases nd)
    (auto simp: sections_readable_def fields_readable_def sidecar_null_def split: parsed.splits)

lemma getDocument_outcome:
  assumes p: "loader_path brain fs ident = Some p" and nd: "resolve fs p = Some nd"
    and fm: "front_matter (path_ends_md p) nd = Some fm"
  shows "if \<not> sections_readable nd then getDocument brain fs ident = Inl ENOTDIR
         else if \<not> fields_readable nd fm then getDocument brain fs ident = Inl TypeError
         else \<exists>d. getDocument brain fs ident = Inr (Some d) \<and> doc_id d = ident"
proof -
  from getBodyContent_front_matter [OF fm] obtain body
    where gb: "getBodyContent (path_ends_md p) nd = Inr (body, fm)"
    by auto
  show ?thesis
  proof (cases "isDirectory nd")
    case True
    show ?thesis
      by (simp add: getDocument_directory [OF p nd True gb])
  next
    case False
    from file_readable [OF False, of fm] show ?thesis
      by (cases fm) (simp_all add: getDocument_file [OF p nd False gb])
  qed
qed

text \<open>
  C9, as amended. When neither the joined path nor the joined path with \<^verbatim>\<open>.md\<close>
  appended exists, the loader returns the not-found signal and raises nothing. For every
  other identifier the path resolves, and the loader returns a document with that
  identifier, unless an exception reaches the caller: \<^verbatim>\<open>EISDIR\<close> when the primary body
  entry is a directory; else the exception of \<^verbatim>\<open>matter\<close> when the text of the body is
  not front matter it can parse; else \<^verbatim>\<open>ENOTDIR\<close> when the \<^verbatim>\<open>sections\<close> entry is a
  regular file; else a \<^verbatim>\<open>TypeError\<close> when the front matter parses to \<^verbatim>\<open>null\<close>, or the
  sidecar parses to \<^verbatim>\<open>null\<close> and one of title, date, tags and summary is missing or not
  truthy in the front matter. Nothing is stated for a directory without \<^verbatim>\<open>body.md\<close> and
  \<^verbatim>\<open>index.md\<close> whose path ends in \<^verbatim>\<open>.md\<close>.
\<close>

theorem loader_outcomes:
  "(loader_path brain fs ident = None \<longrightarrow> getDocument brain fs ident = Inr None)
   \<and> (loader_path brain fs ident = Some p \<longrightarrow>
        (\<exists>nd. resolve fs p = Some nd
           \<and> (\<not> md_directory (path_ends_md p) nd \<longrightarrow>
               (case primary_body nd of
                  Some (Dir es) \<Rightarrow> getDocument brain fs ident = Inl EISDIR
                | _ \<Rightarrow>
                    (case front_matter (path_ends_md p) nd of
                       None \<Rightarrow> getDocument brain fs ident = Inl YAMLException
                     | Some fm \<Rightarrow>
                         if \<not> sections_readable nd
                         then getDocument brain fs ident = Inl ENOTDIR
                         else if \<not> fields_readable nd fm
                         then getDocument brain fs ident = Inl TypeError
                         else \<exists>d. getDocument brain fs ident = Inr (Some d)
                                \<and> doc_id d = ident)))))"
proof (intro conjI impI)
  assume "loader_path brain fs ident = None"
  then show "getDocument brain fs ident = Inr None"
    by (rule getDocument_none)
next
  assume p: "loader_path brain fs ident = Some p"
  from loader_path_exists [OF p] obtain nd where nd: "resolve fs p = Some nd"
    by auto
  have "case primary_body nd of
          Some (Dir es) \<Rightarrow> getDocument brain fs ident = Inl EISDIR
        | _ \<Rightarrow>
            (case front_matter (path_ends_md p) nd of
               None \<Rightarrow> getDocument brain fs ident = Inl YAMLException
             | Some fm \<Rightarrow>
                 if \<not> sections_readable nd
                 then getDocument brain fs ident = Inl ENOTDIR
                 else if \<not> fields_readable nd fm
                 then getDocument brain fs ident = Inl TypeError
                 else \<exists>d. getDocument brain fs ident = Inr (Some d) \<and> doc_id d = ident)"
    if slip: "\<not> md_directory (path_ends_md p) nd"
  proof (cases "\<exists>es. primary_body nd = Some (Dir es)")
    case True
    then obtain es where es: "primary_body nd = Some (Dir es)"
      by auto
    from getDocument_raises [OF p nd getBodyContent_body_directory [OF es]] es show ?thesis
      by simp
  next
    case False
    have rest: "case front_matter (path_ends_md p) nd of
               None \<Rightarrow> getDocument brain fs ident = Inl YAMLException
             | Some fm \<Rightarrow>
                 if \<not> sections_readable nd
                 then getDocument brain fs ident = Inl ENOTDIR
                 else if \<not> fields_readable nd fm
                 then getDocument brain fs ident = Inl TypeError
                 else \<exists>d. getDocument brain fs ident = Inr (Some d) \<and> doc_id d = ident"
    proof (cases "front_matter (path_ends_md p) nd")
      case None
      from False have "\<forall>es. primary_body nd \<noteq> Some (Dir es)"
        by simp
      from getDocument_raises [OF p nd getBodyContent_malformed [OF slip this None]] None
      show ?thesis
        by simp
    next
      case (Some fm)
      from getDocument_outcome [OF p nd Some] Some show ?thesis
        by simp
    qed
    show ?thesis
    proof (cases "primary_body nd")
      case None
      with rest show ?thesis
        by (simp only: option.case)
    next
      case (Some b)
      with False rest show ?thesis
        by (cases b) (simp_all only: option.case node.case, simp)
    qed
  qed
  with nd show "\<exists>nd. resolve fs p = Some nd
           \<and> (\<not> md_directory (path_ends_md p) nd \<longrightarrow>
               (case primary_body nd of
                  Some (Dir es) \<Rightarrow> getDocument brain fs ident = Inl EISDIR
                | _ \<Rightarrow>
                    (case front_matter (path_ends_md p) nd of
                       None \<Rightarrow> getDocument brain fs ident = Inl YAMLException
                     | Some fm \<Rightarrow>
                         if \<not> sections_readable nd
                         then getDocument brain fs ident = Inl ENOTDIR
                         else if \<not> fields_readable nd fm
                         then getDocument brain fs ident = Inl TypeError
                         else \<exists>d. getDocument brain fs ident = Inr (Some d)
                                \<and> doc_id d = ident)))"
    by blast
qed

lemmas loader_defs = loader_path_def sections_readable_def reading_defs

text \<open>
  An unknown identifier gives the not-found signal; the identifier of a flat file
  resolves with \<^verbatim>\<open>.md\<close> appended and gives its document; the identifier of a project
  folder with a section gives its document; a flat file whose front matter is not YAML
  makes the loader raise the parser's exception, and a project folder whose sidecar is
  \<^verbatim>\<open>null\<close> a \<^verbatim>\<open>TypeError\<close>.
\<close>

theorem loader_outcomes_witness:
  "loader_path brain0 fs_project_folder ''projects/nothing'' = None
   \<and> getDocument brain0 fs_project_folder ''projects/nothing'' = Inr None
   \<and> loader_path brain0 fs_flat_dashed ''journals/my-note''
       = Some ([''home'', ''second-brain'', ''journals'', ''my-note.md''], False)
   \<and> getDocument brain0 fs_flat_dashed ''journals/my-note'' =
     Inr (Some \<lparr> doc_id = ''journals/my-note'', title = ''my note'', doc_type = ''journal'',
                 category = None, date = Some ''my-note'', tags = Some (Arr []), summary = None,
                 content = ''text'', sections = None \<rparr>)
   \<and> loader_path brain0 fs_with_sections ''projects/foo''
       = Some ([''home'', ''second-brain'', ''projects'', ''foo''], False)
   \<and> getDocument brain0 fs_with_sections ''projects/foo'' =
     Inr (Some \<lparr> doc_id = ''projects/foo'', title = ''foo'', doc_type = ''project'',
                 category = None, date = None, tags = Some (Arr []), summary = None,
                 content = ''text'', sections = Some [''intro''] \<rparr>)
   \<and> loader_path brain0 fs_malformed_yaml ''journals/broken''
       = Some ([''home'', ''second-brain'', ''journals'', ''broken.md''], False)
   \<and> getDocument brain0 fs_malformed_yaml ''journals/broken'' = Inl YAMLException
   \<and> loader_path brain0 fs_null_sidecar ''projects/foo''
       = Some ([''home'', ''second-brain'', ''projects'', ''foo''], False)
   \<and> getDocument brain0 fs_null_sidecar ''projects/foo'' = Inl TypeError"
proof -
  have a: "loader_path brain0 fs_project_folder ''projects/nothing'' = None"
    by (simp add: loader_defs model_defs example_defs fs_project_folder_def)
  have b: "loader_path brain0 fs_flat_dashed ''journals/my-note''
       = Some ([''home'', ''second-brain'', ''journals'', ''my-note.md''], False)"
    by (simp add: loader_defs model_defs example_defs fs_flat_dashed_def)
  have c: "getDocument brain0 fs_flat_dashed ''journals/my-note'' =
     Inr (Some \<lparr> doc_id = ''journals/my-note'', title = ''my note'', doc_type = ''journal'',
                 category = None, date = Some ''my-note'', tags = Some (Arr []), summary = None,
                 content = ''text'', sections = None \<rparr>)"
    by (simp add: model_defs example_defs fs_flat_dashed_def)
  have d: "loader_path brain0 fs_with_sections ''projects/foo''
       = Some ([''home'', ''second-brain'', ''projects'', ''foo''], False)"
    by (simp add: loader_defs model_defs example_defs fs_with_sections_def)
  have e: "getDocument brain0 fs_with_sections ''projects/foo'' =
     Inr (Some \<lparr> doc_id = ''projects/foo'', title = ''foo'', doc_type = ''project'',
                 category = None, date = None, tags = Some (Arr []), summary = None,
                 content = ''text'', sections = Some [''intro''] \<rparr>)"
    by (simp add: model_defs example_defs fs_with_sections_def)
  have f: "loader_path brain0 fs_malformed_yaml ''journals/broken''
       = Some ([''home'', ''second-brain'', ''journals'', ''broken.md''], False)
      \<and> resolve fs_malformed_yaml ([''home'', ''second-brain'', ''journals'', ''broken.md''], False)
       = Some (File \<lparr> matter_data = None, matter_content = [], json_parse = None \<rparr>)"
    by (simp add: loader_defs model_defs example_defs fs_malformed_yaml_def)
  have g: "loader_path brain0 fs_null_sidecar ''projects/foo''
       = Some ([''home'', ''second-brain'', ''projects'', ''foo''], False)
      \<and> resolve fs_null_sidecar ([''home'', ''second-brain'', ''projects'', ''foo''], False)
       = Some (Dir [(''body.md'', markdown no_fields), (''meta.json'', sidecar (Some Is_null))])"
    by (simp add: loader_defs model_defs example_defs fs_null_sidecar_def)
  from loader_outcomes [of brain0 fs_project_folder "''projects/nothing''"]
    loader_outcomes [of brain0 fs_flat_dashed "''journals/my-note''"
      "([''home'', ''second-brain'', ''journals'', ''my-note.md''], False)"]
    loader_outcomes [of brain0 fs_with_sections "''projects/foo''"
      "([''home'', ''second-brain'', ''projects'', ''foo''], False)"]
    loader_outcomes [of brain0 fs_malformed_yaml "''journals/broken''"
      "([''home'', ''second-brain'', ''journals'', ''broken.md''], False)"]
    loader_outcomes [of brain0 fs_null_sidecar "''projects/foo''"
      "([''home'', ''second-brain'', ''projects'', ''foo''], False)"]
    a b c d e f g
  show ?thesis
    by (simp add: reading_defs sections_readable_def path_ends_md_def endsWith_def
        markdown_def sidecar_def no_fields_def truthy_def)
qed

text \<open>
  C9 as stated fails in its last clause: \<^verbatim>\<open>projects/foo\<close> exists as a directory, and the
  loader returns no document but raises, because the entry \<^verbatim>\<open>sections\<close> is a file.
\<close>

theorem loader_raises:
  "existsSync fs_sections_file (path_join brain0 ''projects/foo'')
   \<and> getDocument brain0 fs_sections_file ''projects/foo'' = Inl ENOTDIR"
  by (simp add: model_defs example_defs fs_sections_file_def)

subsection \<open>Tags and sections\<close>

lemma is_truthy_or_empty: "is_truthy (or_empty a)"
  by (simp add: or_empty_def split: option.splits)

lemma or_empty_value:
  "or_empty a = (if truthy_value a then the a else Arr [])"
  by (simp add: or_empty_def truthy_value_def split: option.splits)

lemma sidecar_fields_file: "sidecar_fields (File f) = no_fields"
  by (simp add: sidecar_fields_def)

lemma supplied_tags_file: "or_empty (supplied_tags m (File f)) = or_empty (f_tags m)"
  by (simp add: supplied_tags_def or_value_def sidecar_fields_file no_fields_def truthy_value_def
      or_empty_def split: option.splits)

lemma scan_sub_entry_tags:
  assumes "scan_sub_entry type c e = Inr ds" and "d \<in> set ds"
  shows "\<exists>g. tags d = Some (or_empty g)"
  using assms
  by (auto simp: scan_sub_entry_def Let_def and_then_Inr split: if_splits)

lemma scan_sub_entry_supplied:
  assumes run: "scan_sub_entry type c e = Inr ds"
    and fm: "front_matter (endsWith (fst e) ''.md'') (snd e) = Some (Fields m)"
    and d: "d \<in> set ds"
  shows "tags d = Some (or_empty (supplied_tags m (snd e)))"
proof (cases "snd e")
  case (Dir subs)
  with fm have "front_matter (endsWith (fst e) ''.md'') (Dir subs) = Some (Fields m)"
    by simp
  from scan_sub_entry_folder [OF this, of type c] run d Dir show ?thesis
    by (cases e) (auto simp: supplied_tags_def fields_of_def split: if_splits)
next
  case (File f)
  show ?thesis
  proof (cases "endsWith (fst e) ''.md''")
    case True
    with fm File have "matter_data f = Some (Fields m)"
      by (simp add: front_matter_def primary_body_def)
    from scan_sub_entry_file [OF True this, of type c] run d File show ?thesis
      by (cases e) (auto simp: supplied_tags_file)
  next
    case False
    with run d File show ?thesis
      by (simp add: scan_sub_entry_def Let_def)
  qed
qed

lemma scan_entry_tags:
  assumes "scan_entry type e = Inr ds" and "d \<in> set ds"
  shows "\<exists>g. tags d = Some (or_empty g)"
proof (cases "is_category_folder (snd e)")
  case True
  then obtain subs where subs: "snd e = Dir subs" "\<not> has_body subs"
    by (cases "snd e") (auto simp: is_category_folder_def entries_of_def)
  with assms(1) have "for_each (scan_sub_entry type (fst e)) subs = Inr ds"
    using scan_entry_category_folder [of subs type "fst e"] by (cases e) simp
  from for_each_member [OF this assms(2)] scan_sub_entry_tags show ?thesis
    by blast
next
  case False
  with assms show ?thesis
    by (cases "snd e")
      (auto simp: scan_entry_def is_category_folder_def entries_of_def has_body_def
        readdirSync_def Let_def and_then_Inr split: if_splits)
qed

lemma scan_entry_supplied:
  assumes run: "scan_entry type e = Inr ds" and shape: "\<not> is_category_folder (snd e)"
    and fm: "front_matter (endsWith (fst e) ''.md'') (snd e) = Some (Fields m)"
    and d: "d \<in> set ds"
  shows "tags d = Some (or_empty (supplied_tags m (snd e)))"
proof (cases "snd e")
  case (Dir subs)
  with shape have hb: "has_body subs"
    by (simp add: is_category_folder_def entries_of_def)
  from fm Dir have "front_matter (endsWith (fst e) ''.md'') (Dir subs) = Some (Fields m)"
    by simp
  from scan_entry_document_folder [OF hb this, of type] run d Dir show ?thesis
    by (cases e) (auto simp: supplied_tags_def fields_of_def split: if_splits)
next
  case (File f)
  show ?thesis
  proof (cases "endsWith (fst e) ''.md''")
    case True
    with fm File have "matter_data f = Some (Fields m)"
      by (simp add: front_matter_def primary_body_def)
    from scan_entry_flat_file [OF True this, of type] run d File show ?thesis
      by (cases e) (auto simp: supplied_tags_file)
  next
    case False
    with run d File show ?thesis
      by (simp add: scan_entry_def Let_def)
  qed
qed

lemma getAllDocuments_member:
  assumes "getAllDocuments lc brain fs = Inr docs" and "d \<in> set docs"
  shows "\<exists>type e ds. scan_entry type e = Inr ds \<and> d \<in> set ds"
proof -
  from assms obtain r
    where r: "for_each (scan_type brain fs) [''projects'', ''journals'', ''concepts''] = Inr r"
      and d: "d \<in> set r"
    by (auto simp: getAllDocuments_def set_js_sort and_then_Inr)
  from for_each_member [OF r d] obtain type s
    where s: "scan_type brain fs type = Inr s" "d \<in> set s"
    by blast
  from for_each_member [OF scan_type_for_each [OF s(1)] s(2)] show ?thesis
    by blast
qed

lemma getDocument_tags:
  assumes "getDocument brain fs ident = Inr (Some doc)"
  shows "\<exists>g. tags doc = Some (or_empty g)"
proof -
  from assms obtain q where q: "loader_path brain fs ident = Some q"
    using getDocument_none [of brain fs ident] by (cases "loader_path brain fs ident") auto
  from loader_path_exists [OF q] obtain n where n: "resolve fs q = Some n"
    by auto
  from assms show ?thesis
    unfolding getDocument_at [OF q n]
    by (auto simp: and_then_Inr split: if_splits)
qed

lemma loader_tags_sections:
  assumes at: "getDocument brain fs ident = Inr (Some doc)"
    and p: "loader_path brain fs ident = Some p" and nd: "resolve fs p = Some nd"
    and fm: "front_matter (path_ends_md p) nd = Some (Fields m)"
  shows "tags doc = Some (or_empty (supplied_tags m nd))
      \<and> (isDirectory nd \<longrightarrow> (\<exists>secs. sections doc = Some secs))
      \<and> (isDirectory nd \<and> child nd ''sections'' = None \<longrightarrow> sections doc = Some [])"
proof -
  from getBodyContent_front_matter [OF fm] obtain body
    where gb: "getBodyContent (path_ends_md p) nd = Inr (body, Fields m)"
    by auto
  show ?thesis
  proof (cases nd)
    case (Dir subs)
    then have dir: "isDirectory nd"
      by simp
    from at show ?thesis
      unfolding getDocument_directory [OF p nd dir gb]
      by (auto simp: supplied_tags_def fields_of_def read_sections_def split: if_splits)
  next
    case (File f)
    then have reg: "\<not> isDirectory nd"
      by simp
    from at File show ?thesis
      unfolding getDocument_file [OF p nd reg gb]
      by (auto simp: supplied_tags_file)
  qed
qed

text \<open>
  C10, as amended. Every record of the indexer and every document of the loader has
  its tags present, and they are a truthy value: the value of \<^verbatim>\<open>tags\<close> in the front
  matter when that is truthy, else the value in the sidecar when that is truthy, else
  the empty array; this for the documents of a document folder, a flat file, a
  subdocument folder, a subdocument file, and for the loader. So the tags are the empty
  array when neither front matter nor sidecar supplies a truthy value, and they are an
  array when the value supplied is one. Every document the loader returns for a path
  that is a directory has its sections present, and they are the empty array when the
  directory has no \<^verbatim>\<open>sections\<close> entry.
\<close>

theorem tags_and_sections_present:
  "(getAllDocuments localeCompare brain fs = Inr docs \<longrightarrow>
      (\<forall>d\<in>set docs. \<exists>v. tags d = Some v \<and> is_truthy v))
   \<and> (scan_entry type e = Inr ds \<and> \<not> is_category_folder (snd e)
        \<and> front_matter (endsWith (fst e) ''.md'') (snd e) = Some (Fields fm) \<longrightarrow>
      (\<forall>d\<in>set ds. tags d = Some (if truthy_value (supplied_tags fm (snd e))
                                    then the (supplied_tags fm (snd e)) else Arr [])))
   \<and> (scan_sub_entry type c e = Inr ds
        \<and> front_matter (endsWith (fst e) ''.md'') (snd e) = Some (Fields fm) \<longrightarrow>
      (\<forall>d\<in>set ds. tags d = Some (if truthy_value (supplied_tags fm (snd e))
                                    then the (supplied_tags fm (snd e)) else Arr [])))
   \<and> (getDocument brain fs ident = Inr (Some doc) \<longrightarrow> (\<exists>v. tags doc = Some v \<and> is_truthy v))
   \<and> (getDocument brain fs ident = Inr (Some doc) \<and> loader_path brain fs ident = Some p
        \<and> resolve fs p = Some nd \<and> front_matter (path_ends_md p) nd = Some (Fields fm) \<longrightarrow>
      tags doc = Some (if truthy_value (supplied_tags fm nd)
                       then the (supplied_tags fm nd) else Arr [])
      \<and> (isDirectory nd \<longrightarrow> (\<exists>secs. sections doc = Some secs))
      \<and> (isDirectory nd \<and> child nd ''sections'' = None \<longrightarrow> sections doc = Some []))"
proof -
  have listing: "getAllDocuments localeCompare brain fs = Inr docs \<longrightarrow>
      (\<forall>d\<in>set docs. \<exists>v. tags d = Some v \<and> is_truthy v)"
  proof (intro impI ballI)
    fix d
    assume "getAllDocuments localeCompare brain fs = Inr docs" and "d \<in> set docs"
    from getAllDocuments_member [OF this] obtain ty x r
      where "scan_entry ty x = Inr r" "d \<in> set r"
      by blast
    from scan_entry_tags [OF this] show "\<exists>v. tags d = Some v \<and> is_truthy v"
      by (auto simp: is_truthy_or_empty)
  qed
  have entry: "scan_entry type e = Inr ds \<and> \<not> is_category_folder (snd e)
        \<and> front_matter (endsWith (fst e) ''.md'') (snd e) = Some (Fields fm) \<longrightarrow>
      (\<forall>d\<in>set ds. tags d = Some (if truthy_value (supplied_tags fm (snd e))
                                    then the (supplied_tags fm (snd e)) else Arr []))"
    using scan_entry_supplied [of type e ds fm] by (auto simp: or_empty_value)
  have sub: "scan_sub_entry type c e = Inr ds
        \<and> front_matter (endsWith (fst e) ''.md'') (snd e) = Some (Fields fm) \<longrightarrow>
      (\<forall>d\<in>set ds. tags d = Some (if truthy_value (supplied_tags fm (snd e))
                                    then the (supplied_tags fm (snd e)) else Arr []))"
    using scan_sub_entry_supplied [of type c e ds fm] by (auto simp: or_empty_value)
  have loaded: "getDocument brain fs ident = Inr (Some doc) \<longrightarrow>
      (\<exists>v. tags doc = Some v \<and> is_truthy v)"
    using getDocument_tags [of brain fs ident doc] by (auto simp: is_truthy_or_empty)
  have dir: "getDocument brain fs ident = Inr (Some doc) \<and> loader_path brain fs ident = Some p
        \<and> resolve fs p = Some nd \<and> front_matter (path_ends_md p) nd = Some (Fields fm) \<longrightarrow>
      tags doc = Some (if truthy_value (supplied_tags fm nd)
                       then the (supplied_tags fm nd) else Arr [])
      \<and> (isDirectory nd \<longrightarrow> (\<exists>secs. sections doc = Some secs))
      \<and> (isDirectory nd \<and> child nd ''sections'' = None \<longrightarrow> sections doc = Some [])"
  proof (intro impI, elim conjE)
    assume "getDocument brain fs ident = Inr (Some doc)" "loader_path brain fs ident = Some p"
      "resolve fs p = Some nd" "front_matter (path_ends_md p) nd = Some (Fields fm)"
    from loader_tags_sections [OF this]
    show "tags doc = Some (if truthy_value (supplied_tags fm nd)
                       then the (supplied_tags fm nd) else Arr [])
      \<and> (isDirectory nd \<longrightarrow> (\<exists>secs. sections doc = Some secs))
      \<and> (isDirectory nd \<and> child nd ''sections'' = None \<longrightarrow> sections doc = Some [])"
      by (simp add: or_empty_value)
  qed
  show ?thesis
    by (intro conjI) (rule listing, rule entry, rule sub, rule loaded, rule dir)
qed

text \<open>
  The project folder \<^verbatim>\<open>projects/foo\<close> with an untagged body and no sidecar: tags are
  \<^verbatim>\<open>[]\<close> in the listing and in the loaded document, whose sections are \<^verbatim>\<open>[]\<close>.
\<close>

theorem tags_and_sections_present_witness:
  "getAllDocuments alphabetic brain0 fs_project_folder =
     Inr [\<lparr> doc_id = ''projects/foo'', title = ''foo'', doc_type = ''project'',
            category = Some ''foo'', date = None, tags = Some (Arr []), summary = None \<rparr>]
   \<and> getDocument brain0 fs_project_folder ''projects/foo'' =
     Inr (Some \<lparr> doc_id = ''projects/foo'', title = ''foo'', doc_type = ''project'',
                 category = None, date = None, tags = Some (Arr []), summary = None,
                 content = ''text'', sections = Some [] \<rparr>)
   \<and> supplied_tags no_fields (Dir [(''body.md'', markdown no_fields)]) = None
   \<and> child (Dir [(''body.md'', markdown no_fields)]) ''sections'' = None"
proof -
  let ?d = "\<lparr> doc_id = ''projects/foo'', title = ''foo'', doc_type = ''project'',
            category = Some ''foo'', date = None, tags = Some (Arr []), summary = None \<rparr>"
  let ?doc = "\<lparr> doc_id = ''projects/foo'', title = ''foo'', doc_type = ''project'',
                 category = None, date = None, tags = Some (Arr []), summary = None,
                 content = ''text'', sections = Some [] \<rparr>"
  let ?nd = "Dir [(''body.md'', markdown no_fields)]"
  let ?p = "([''home'', ''second-brain'', ''projects'', ''foo''], False)"
  have run: "getAllDocuments alphabetic brain0 fs_project_folder = Inr [?d]"
    by (simp add: model_defs example_defs fs_project_folder_def)
  have entry: "scan_entry ''projects'' (''foo'', ?nd) = Inr [?d]"
    by (simp add: model_defs example_defs)
  have load: "getDocument brain0 fs_project_folder ''projects/foo'' = Inr (Some ?doc)"
    by (simp add: model_defs example_defs fs_project_folder_def)
  have path: "loader_path brain0 fs_project_folder ''projects/foo'' = Some ?p
      \<and> resolve fs_project_folder ?p = Some ?nd"
    by (simp add: loader_defs model_defs example_defs fs_project_folder_def)
  have none: "supplied_tags no_fields ?nd = None \<and> \<not> is_category_folder ?nd
      \<and> \<not> endsWith ''foo'' ''.md'' \<and> \<not> path_ends_md ?p \<and> child ?nd ''sections'' = None
      \<and> front_matter False ?nd = Some (Fields no_fields)"
    by (simp add: supplied_tags_def or_value_def clash_defs reading_defs model_defs example_defs)
  from tags_and_sections_present [where localeCompare = alphabetic and brain = brain0
      and fs = fs_project_folder and docs = "[?d]" and type = "''projects''"
      and e = "(''foo'', ?nd)" and ds = "[?d]" and fm = no_fields
      and ident = "''projects/foo''" and doc = ?doc and p = ?p and nd = ?nd]
    run entry load path none
  show ?thesis
    by simp
qed

text \<open>
  C10 as stated fails: the tags are not always an array. With the front matter
  \<^verbatim>\<open>tags: work\<close> the record of the listing and the loaded document have the string
  \<^verbatim>\<open>work\<close> as their tags.
\<close>

theorem tags_not_an_array:
  "getAllDocuments alphabetic brain0 fs_tags_string =
     Inr [\<lparr> doc_id = ''projects/foo'', title = ''foo'', doc_type = ''project'',
            category = Some ''foo'', date = None, tags = Some (Str ''work''), summary = None \<rparr>]
   \<and> getDocument brain0 fs_tags_string ''projects/foo'' =
     Inr (Some \<lparr> doc_id = ''projects/foo'', title = ''foo'', doc_type = ''project'',
                 category = None, date = None, tags = Some (Str ''work''), summary = None,
                 content = ''text'', sections = Some [] \<rparr>)
   \<and> \<not> is_array (Str ''work'')"
  by (simp add: model_defs example_defs fs_tags_string_def)

subsection \<open>Malformed sidecars\<close>

lemma isDirectory_empty_malformed [simp]: "isDirectory (empty_malformed nd) = isDirectory nd"
  by (cases nd) simp_all

lemma map_of_empty_malformed:
  "map_of (map (map_prod (\<lambda>n. n) empty_malformed) es) n = map_option empty_malformed (map_of es n)"
  by (induction es) auto

lemma child_empty_malformed:
  "child (empty_malformed nd) n = map_option empty_malformed (child nd n)"
  by (cases nd) (simp_all add: map_of_empty_malformed)

lemma lookup_empty_malformed:
  "lookup (empty_malformed nd) p = map_option empty_malformed (lookup nd p)"
  by (induction p arbitrary: nd) (auto simp: child_empty_malformed split: option.splits)

lemma getMetaFromFile_empty_malformed:
  "getMetaFromFile (map_option empty_malformed x) = getMetaFromFile x"
  by (auto simp: getMetaFromFile_def readFileSync_def split: option.splits node.splits)

lemma read_matter_empty_malformed:
  "and_then (readFileSync (map_option empty_malformed x)) matter = and_then (readFileSync x) matter"
  by (auto simp: readFileSync_def matter_def split: option.splits node.splits)

lemma getBodyContent_empty_malformed:
  "getBodyContent b (empty_malformed nd) = getBodyContent b nd"
proof -
  note rd = read_matter_empty_malformed
  have self: "Some (empty_malformed nd) = map_option empty_malformed (Some nd)"
    by simp
  show ?thesis
  proof (cases "child nd ''body.md''")
    case None
    show ?thesis
    proof (cases "child nd ''index.md''")
      case n: None
      with None show ?thesis
        unfolding getBodyContent_def child_empty_malformed Let_def self rd
        by simp
    next
      case (Some x)
      with None rd [of "Some x"] show ?thesis
        unfolding getBodyContent_def child_empty_malformed Let_def
        by simp
    qed
  next
    case (Some x)
    with rd [of "Some x"] show ?thesis
      unfolding getBodyContent_def child_empty_malformed Let_def
      by simp
  qed
qed

lemma for_each_map: "for_each body (map g xs) = for_each (\<lambda>x. body (g x)) xs"
  by (induction xs) (simp_all cong: sum.case_cong)

lemma scan_sub_entry_empty_malformed:
  "scan_sub_entry type c (map_prod (\<lambda>n. n) empty_malformed e) = scan_sub_entry type c e"
  by (simp add: scan_sub_entry_def Let_def child_empty_malformed getMetaFromFile_empty_malformed
      getBodyContent_empty_malformed)

lemma list_ex_names_empty_malformed:
  "list_ex (\<lambda>e. P (fst e)) (map (map_prod (\<lambda>n. n) empty_malformed) es) = list_ex (\<lambda>e. P (fst e)) es"
  by (induction es) auto

lemma scan_entry_empty_malformed:
  "scan_entry type (map_prod (\<lambda>n. n) empty_malformed e) = scan_entry type e"
proof (cases "snd e")
  case (File f)
  then show ?thesis
    using getBodyContent_empty_malformed [of _ "File f"]
    by (simp add: scan_entry_def Let_def)
next
  case (Dir subs)
  have names: "list_ex (\<lambda>e. fst e = ''body.md'' \<or> fst e = ''index.md'')
                 (map (map_prod (\<lambda>n. n) empty_malformed) subs)
             = list_ex (\<lambda>e. fst e = ''body.md'' \<or> fst e = ''index.md'') subs"
    by (rule list_ex_names_empty_malformed)
  have sub: "for_each (scan_sub_entry type (fst e)) (map (map_prod (\<lambda>n. n) empty_malformed) subs)
           = for_each (scan_sub_entry type (fst e)) subs"
    by (simp add: for_each_map scan_sub_entry_empty_malformed)
  have meta: "getMetaFromFile (child (empty_malformed (Dir subs)) ''meta.json'')
            = getMetaFromFile (child (Dir subs) ''meta.json'')"
    by (simp only: child_empty_malformed getMetaFromFile_empty_malformed)
  from Dir show ?thesis
    using getBodyContent_empty_malformed [of _ "Dir subs"] names sub meta
    by (simp add: scan_entry_def readdirSync_def Let_def)
qed

lemma scan_type_empty_malformed:
  "scan_type brain (empty_malformed fs) type = scan_type brain fs type"
proof (cases "lookup fs (brain @ [type])")
  case None
  then show ?thesis
    by (simp add: scan_type_def lookup_empty_malformed)
next
  case (Some nd)
  then show ?thesis
    by (cases nd)
      (simp_all add: scan_type_def lookup_empty_malformed readdirSync_def for_each_map
        scan_entry_empty_malformed)
qed

lemma getAllDocuments_empty_malformed:
  "getAllDocuments lc brain (empty_malformed fs) = getAllDocuments lc brain fs"
proof -
  have "scan_type brain (empty_malformed fs) = scan_type brain fs"
    by (rule ext) (rule scan_type_empty_malformed)
  then show ?thesis
    by (simp only: getAllDocuments_def)
qed

lemma resolve_empty_malformed:
  "resolve (empty_malformed fs) p = map_option empty_malformed (resolve fs p)"
  by (simp add: resolve_def lookup_empty_malformed split: option.splits)

lemma existsSync_empty_malformed: "existsSync (empty_malformed fs) p = existsSync fs p"
  by (simp add: existsSync_def resolve_empty_malformed)

lemma read_sections_empty_malformed:
  "read_sections (map_option empty_malformed x) = read_sections x"
proof (cases x)
  case None
  then show ?thesis by (simp add: read_sections_def)
next
  case (Some nd)
  then show ?thesis
    by (cases nd) (simp_all add: read_sections_def readdirSync_def comp_def)
qed

lemma getDocument_empty_malformed:
  "getDocument brain (empty_malformed fs) ident = getDocument brain fs ident"
proof (cases "loader_path brain fs ident")
  case None
  then have "loader_path brain (empty_malformed fs) ident = None"
    by (simp only: loader_path_def existsSync_empty_malformed)
  with None show ?thesis
    by (simp add: getDocument_none)
next
  case (Some p)
  then have p: "loader_path brain (empty_malformed fs) ident = Some p"
    by (simp only: loader_path_def existsSync_empty_malformed)
  from loader_path_exists [OF Some] obtain nd where nd: "resolve fs p = Some nd"
    by auto
  then have nd': "resolve (empty_malformed fs) p = Some (empty_malformed nd)"
    by (simp add: resolve_empty_malformed)
  show ?thesis
    unfolding getDocument_at [OF Some nd] getDocument_at [OF p nd']
    by (simp only: isDirectory_empty_malformed child_empty_malformed
        getMetaFromFile_empty_malformed getBodyContent_empty_malformed
        read_sections_empty_malformed)
qed

text \<open>
  C8. A sidecar whose content fails to parse does not make the metadata resolution
  raise: \<open>getMetaFromFile\<close> returns the empty record. The listing and the loader give
  the same result as on the tree in which every such file holds the empty record
  \<^verbatim>\<open>{}\<close>, so a malformed sidecar never makes them fail. A document folder with a
  malformed sidecar, and a body whose front matter parses to a record, yields its
  document with the fields of the front matter alone: date and summary absent unless
  the front matter has them, the title from the front matter or the folder name, the
  tags from the front matter or empty.
\<close>

theorem malformed_sidecar_is_empty:
  "(json_parse f = None \<longrightarrow> getMetaFromFile (Some (File f)) = Fields no_fields)
   \<and> getAllDocuments localeCompare brain (empty_malformed fs)
       = getAllDocuments localeCompare brain fs
   \<and> getDocument brain (empty_malformed fs) ident = getDocument brain fs ident
   \<and> (primary_body (Dir subs) = Some (File b) \<and> matter_data b = Some (Fields fm)
        \<and> child (Dir subs) ''meta.json'' = Some (File s) \<and> json_parse s = None \<longrightarrow>
      (\<exists>d. scan_entry type (name, Dir subs) = Inr [d]
         \<and> title d = or_else (f_title fm) (replace_dashes name)
         \<and> date d = (if truthy (f_date fm) then f_date fm else None)
         \<and> tags d = Some (if truthy_value (f_tags fm) then the (f_tags fm) else Arr [])
         \<and> summary d = (if truthy (f_summary fm) then f_summary fm else None)))"
proof (intro conjI impI)
  assume "json_parse f = None"
  then show "getMetaFromFile (Some (File f)) = Fields no_fields"
    by (simp add: getMetaFromFile_def readFileSync_def)
next
  show "getAllDocuments localeCompare brain (empty_malformed fs)
      = getAllDocuments localeCompare brain fs"
    by (rule getAllDocuments_empty_malformed)
next
  show "getDocument brain (empty_malformed fs) ident = getDocument brain fs ident"
    by (rule getDocument_empty_malformed)
next
  assume a: "primary_body (Dir subs) = Some (File b) \<and> matter_data b = Some (Fields fm)
        \<and> child (Dir subs) ''meta.json'' = Some (File s) \<and> json_parse s = None"
  then have hb: "has_body subs"
    by (simp add: has_body_primary)
  from a have fm: "front_matter (endsWith name ''.md'') (Dir subs) = Some (Fields fm)"
    by (simp add: front_matter_def)
  from a have sc: "sidecar_fields (Dir subs) = no_fields \<and> \<not> sidecar_null (Dir subs)"
    by (simp add: sidecar_fields_def sidecar_null_def)
  then have ok: "fields_readable (Dir subs) (Fields fm)"
    by (simp add: fields_readable_def)
  show "\<exists>d. scan_entry type (name, Dir subs) = Inr [d]
         \<and> title d = or_else (f_title fm) (replace_dashes name)
         \<and> date d = (if truthy (f_date fm) then f_date fm else None)
         \<and> tags d = Some (if truthy_value (f_tags fm) then the (f_tags fm) else Arr [])
         \<and> summary d = (if truthy (f_summary fm) then f_summary fm else None)"
    using ok sc
    by (auto simp: scan_entry_document_folder [OF hb fm] fields_of_def spec_precedence_or
        or_empty_or_value no_fields_def truthy_def truthy_value_def or_else_def
        split: option.splits)
qed

text \<open>
  A project folder whose \<^verbatim>\<open>meta.json\<close> is malformed is listed, with the title of its
  front matter and no date.
\<close>

theorem malformed_sidecar_example:
  "getAllDocuments alphabetic brain0 fs_malformed_sidecar =
     Inr [\<lparr> doc_id = ''projects/foo'', title = ''A'', doc_type = ''project'',
            category = Some ''foo'', date = None, tags = Some (Arr []), summary = None \<rparr>]
   \<and> getMetaFromFile (Some (sidecar None)) = Fields no_fields
   \<and> getAllDocuments alphabetic brain0 (empty_malformed fs_malformed_sidecar)
       = getAllDocuments alphabetic brain0 fs_malformed_sidecar"
proof -
  let ?fm = "no_fields\<lparr> f_title := Some ''A'' \<rparr>"
  let ?b = "\<lparr> matter_data = Some (Fields ?fm), matter_content = ''text'', json_parse = None \<rparr>"
  let ?s = "\<lparr> matter_data = Some (Fields no_fields), matter_content = [], json_parse = None \<rparr>"
  let ?subs = "[(''body.md'', File ?b), (''meta.json'', File ?s)]"
  have pre: "primary_body (Dir ?subs) = Some (File ?b) \<and> matter_data ?b = Some (Fields ?fm)
        \<and> child (Dir ?subs) ''meta.json'' = Some (File ?s) \<and> json_parse ?s = None"
    by (simp add: primary_body_def)
  have run: "getAllDocuments alphabetic brain0 fs_malformed_sidecar =
     Inr [\<lparr> doc_id = ''projects/foo'', title = ''A'', doc_type = ''project'',
            category = Some ''foo'', date = None, tags = Some (Arr []), summary = None \<rparr>]"
    by (simp add: model_defs example_defs fs_malformed_sidecar_def)
  from malformed_sidecar_is_empty [of ?s alphabetic brain0 fs_malformed_sidecar _ ?subs ?b ?fm ?s
      "''projects''" "''foo''"] pre run
  show ?thesis
    by (simp add: sidecar_def)
qed

section \<open>Further properties\<close>

subsection \<open>Flat files with a plain name\<close>

lemma js_replace_suffix: "no_dot stem \<Longrightarrow> js_replace ''.md'' [] (stem @ ''.md'') = stem"
  by (induction stem) (auto simp: no_dot_def)

lemma endsWith_append: "endsWith (stem @ suf) suf"
  by (simp add: endsWith_def)

lemma js_split_ne: "js_split sep s \<noteq> []"
  by (induction s) (auto split: list.splits)

lemma js_split_no_slash: "no_slash n \<Longrightarrow> js_split CHR ''/'' n = [n]"
  by (induction n) (auto simp: no_slash_def)

lemma js_split_long: "length (js_split sep (pre @ sep # n)) \<ge> 2"
proof (induction pre)
  case Nil
  show ?case
    using js_split_ne [of sep n] by (cases "js_split sep n") auto
next
  case (Cons c pre)
  then show ?case
    by (cases "js_split sep (pre @ sep # n)") auto
qed

lemma last_js_split: "last (js_split sep (pre @ sep # n)) = last (js_split sep n)"
proof (induction pre)
  case Nil
  show ?case
    using js_split_ne [of sep n] by simp
next
  case (Cons c pre)
  obtain w ws where ws: "js_split sep (pre @ sep # n) = w # ws" "ws \<noteq> []"
    using js_split_long [of sep pre n]
    by (cases "js_split sep (pre @ sep # n)") (auto simp: Suc_le_eq)
  with Cons show ?case
    by auto
qed

lemma last_segment: "no_slash n \<Longrightarrow> last (js_split CHR ''/'' (pre @ ''/'' @ n)) = n"
  using last_js_split [of "CHR ''/''" pre n] by (simp add: js_split_no_slash)

text \<open>
  A markdown file directly under a type folder whose name has no dot before the
  extension \<^verbatim>\<open>.md\<close>, and whose front matter parses to a record, yields exactly one
  document, with the identifier type/stem and no category, whose date is the front
  matter date when it is present and non-empty and otherwise the file name without its
  extension.
\<close>

theorem flat_file_document:
  assumes "no_dot stem" and "matter_data f = Some (Fields fm)"
  shows "\<exists>d. scan_entry type (stem @ ''.md'', File f) = Inr [d]
           \<and> doc_id d = type @ ''/'' @ stem
           \<and> category d = None
           \<and> date d = Some (case f_date fm of
                              Some v \<Rightarrow> if v \<noteq> [] then v else stem
                            | None \<Rightarrow> stem)"
  using assms
  by (simp add: scan_entry_flat_file [OF endsWith_append] js_replace_suffix or_else_def
      split: option.splits)

text \<open>\<^verbatim>\<open>journals/2026-01-28.md\<close> without a front matter date has the date \<^verbatim>\<open>2026-01-28\<close>.\<close>

theorem flat_file_document_example:
  "getAllDocuments alphabetic brain0 fs_journal =
     Inr [\<lparr> doc_id = ''journals/2026-01-28'', title = ''2026-01-28'', doc_type = ''journal'',
            category = None, date = Some ''2026-01-28'', tags = Some (Arr []), summary = None \<rparr>]
   \<and> no_dot ''2026-01-28''
   \<and> (\<exists>d. scan_entry ''journals'' (''2026-01-28.md'', markdown no_fields) = Inr [d]
         \<and> doc_id d = ''journals/2026-01-28'' \<and> category d = None
         \<and> date d = Some ''2026-01-28'')"
proof -
  have nd: "no_dot ''2026-01-28''"
    by (simp add: no_dot_def)
  have run: "getAllDocuments alphabetic brain0 fs_journal =
     Inr [\<lparr> doc_id = ''journals/2026-01-28'', title = ''2026-01-28'', doc_type = ''journal'',
            category = None, date = Some ''2026-01-28'', tags = Some (Arr []), summary = None \<rparr>]"
    by (simp add: model_defs example_defs fs_journal_def)
  from flat_file_document [OF nd, of
      "\<lparr> matter_data = Some (Fields no_fields), matter_content = ''text'', json_parse = None \<rparr>"
      no_fields "''journals''"] nd run
  show ?thesis
    by (simp add: markdown_def no_fields_def)
qed

subsection \<open>Title fallback outside flat files\<close>

lemma or_else_spec_title:
  "last (js_split CHR ''/'' ident) = n \<Longrightarrow>
   or_else (spec_precedence a b) (replace_dashes n) = spec_title a b ident"
  by (auto simp: spec_title_def or_else_spec split: option.splits)

text \<open>
  For a document folder and a subdocument folder whose front matter and sidecar can be
  read, for a subdocument file with a plain name, and for every document of the loader,
  the title is the front matter title when non-empty, otherwise the sidecar title when
  non-empty (a file has no sidecar), otherwise the last segment of the identifier with
  dashes replaced by spaces.
\<close>

theorem title_fallback:
  "(primary_body (Dir subs) = Some (File b) \<and> matter_data b = Some (Fields fm)
      \<and> fields_readable (Dir subs) (Fields fm) \<and> no_slash name \<longrightarrow>
      (\<exists>d. scan_entry type (name, Dir subs) = Inr [d]
         \<and> title d = spec_title (f_title fm) (f_title (sidecar_fields (Dir subs))) (doc_id d)))
   \<and> (primary_body (Dir subs) = Some (File b) \<and> matter_data b = Some (Fields fm)
      \<and> fields_readable (Dir subs) (Fields fm) \<and> no_slash name \<longrightarrow>
      (\<exists>d. scan_sub_entry type c (name, Dir subs) = Inr [d]
         \<and> title d = spec_title (f_title fm) (f_title (sidecar_fields (Dir subs))) (doc_id d)))
   \<and> (no_dot stem \<and> no_slash stem \<and> matter_data f = Some (Fields fm) \<longrightarrow>
      (\<exists>d. scan_sub_entry type c (stem @ ''.md'', File f) = Inr [d]
         \<and> title d = spec_title (f_title fm) None (doc_id d)))
   \<and> (getDocument brain fs ident = Inr (Some doc) \<and> loader_path brain fs ident = Some p
        \<and> resolve fs p = Some nd \<and> front_matter (path_ends_md p) nd = Some (Fields fm) \<longrightarrow>
      title doc = spec_title (f_title fm) (f_title (sidecar_fields nd)) ident)"
proof (intro conjI impI)
  assume a: "primary_body (Dir subs) = Some (File b) \<and> matter_data b = Some (Fields fm)
      \<and> fields_readable (Dir subs) (Fields fm) \<and> no_slash name"
  then have hb: "has_body subs"
    by (simp add: has_body_primary)
  from a have fm: "front_matter (endsWith name ''.md'') (Dir subs) = Some (Fields fm)"
    by (simp add: front_matter_def)
  from a have l: "last (js_split CHR ''/'' (type @ ''/'' @ name)) = name"
    using last_segment [of name type] by simp
  from a show "\<exists>d. scan_entry type (name, Dir subs) = Inr [d]
         \<and> title d = spec_title (f_title fm) (f_title (sidecar_fields (Dir subs))) (doc_id d)"
    by (simp add: scan_entry_document_folder [OF hb fm] fields_of_def or_else_spec_title [OF l])
next
  assume a: "primary_body (Dir subs) = Some (File b) \<and> matter_data b = Some (Fields fm)
      \<and> fields_readable (Dir subs) (Fields fm) \<and> no_slash name"
  then have fm: "front_matter (endsWith name ''.md'') (Dir subs) = Some (Fields fm)"
    by (simp add: front_matter_def)
  from a have l: "last (js_split CHR ''/'' (type @ ''/'' @ c @ ''/'' @ name)) = name"
    using last_segment [of name "type @ ''/'' @ c"] by simp
  from a show "\<exists>d. scan_sub_entry type c (name, Dir subs) = Inr [d]
         \<and> title d = spec_title (f_title fm) (f_title (sidecar_fields (Dir subs))) (doc_id d)"
    by (simp add: scan_sub_entry_folder [OF fm] fields_of_def or_else_spec_title [OF l])
next
  assume a: "no_dot stem \<and> no_slash stem \<and> matter_data f = Some (Fields fm)"
  then have l: "last (js_split CHR ''/'' (type @ ''/'' @ c @ ''/'' @ stem)) = stem"
    using last_segment [of stem "type @ ''/'' @ c"] by simp
  have "or_else (f_title fm) (replace_dashes stem)
      = spec_title (f_title fm) None (type @ ''/'' @ c @ ''/'' @ stem)"
    unfolding spec_title_def l
    by (simp add: spec_precedence_def or_else_def split: option.splits)
  with a show "\<exists>d. scan_sub_entry type c (stem @ ''.md'', File f) = Inr [d]
         \<and> title d = spec_title (f_title fm) None (doc_id d)"
    by (simp add: scan_sub_entry_file [OF endsWith_append] js_replace_suffix)
next
  assume a: "getDocument brain fs ident = Inr (Some doc) \<and> loader_path brain fs ident = Some p
        \<and> resolve fs p = Some nd \<and> front_matter (path_ends_md p) nd = Some (Fields fm)"
  then have at: "getDocument brain fs ident = Inr (Some doc)"
    and p: "loader_path brain fs ident = Some p" and nd: "resolve fs p = Some nd"
    and fm: "front_matter (path_ends_md p) nd = Some (Fields fm)"
    by simp_all
  from getBodyContent_front_matter [OF fm] obtain body
    where gb: "getBodyContent (path_ends_md p) nd = Inr (body, Fields fm)"
    by auto
  show "title doc = spec_title (f_title fm) (f_title (sidecar_fields nd)) ident"
  proof (cases nd)
    case (File f)
    then have reg: "\<not> isDirectory nd"
      by simp
    from at File show ?thesis
      unfolding getDocument_file [OF p nd reg gb]
      by (auto simp: spec_title_def spec_precedence_def or_else_def sidecar_fields_file
          no_fields_def split: option.splits)
  next
    case (Dir es)
    then have dir: "isDirectory nd"
      by simp
    from at show ?thesis
      unfolding getDocument_directory [OF p nd dir gb]
      by (auto simp: fields_of_def or_else_spec_title split: if_splits)
  qed
qed

text \<open>
  A folder \<^verbatim>\<open>my-project\<close> and a file \<^verbatim>\<open>my-note.md\<close> without titles get the titles
  \<^verbatim>\<open>my project\<close> and \<^verbatim>\<open>my note\<close>.
\<close>

theorem title_fallback_example:
  "scan_entry ''projects'' (''my-project'', Dir [(''body.md'', markdown no_fields)]) =
     Inr [\<lparr> doc_id = ''projects/my-project'', title = ''my project'', doc_type = ''project'',
            category = Some ''my-project'', date = None, tags = Some (Arr []), summary = None \<rparr>]
   \<and> scan_sub_entry ''projects'' ''cat'' (''my-note.md'', markdown no_fields) =
     Inr [\<lparr> doc_id = ''projects/cat/my-note'', title = ''my note'', doc_type = ''project'',
            category = Some ''cat'', date = None, tags = Some (Arr []), summary = None \<rparr>]
   \<and> getDocument brain0 fs_flat_dashed ''journals/my-note'' =
     Inr (Some \<lparr> doc_id = ''journals/my-note'', title = ''my note'', doc_type = ''journal'',
                 category = None, date = Some ''my-note'', tags = Some (Arr []), summary = None,
                 content = ''text'', sections = None \<rparr>)
   \<and> spec_title None None ''projects/my-project'' = ''my project''
   \<and> spec_title None None ''projects/cat/my-note'' = ''my note''
   \<and> spec_title None None ''journals/my-note'' = ''my note''"
proof -
  let ?b = "\<lparr> matter_data = Some (Fields no_fields), matter_content = ''text'',
              json_parse = None \<rparr>"
  let ?subs = "[(''body.md'', File ?b)]"
  let ?p = "([''home'', ''second-brain'', ''journals'', ''my-note.md''], False)"
  have a: "primary_body (Dir ?subs) = Some (File ?b) \<and> matter_data ?b = Some (Fields no_fields)
      \<and> fields_readable (Dir ?subs) (Fields no_fields) \<and> no_slash ''my-project''"
    by (simp add: reading_defs no_slash_def)
  have b: "no_dot ''my-note'' \<and> no_slash ''my-note''"
    by (simp add: no_dot_def no_slash_def)
  have c: "getDocument brain0 fs_flat_dashed ''journals/my-note'' =
     Inr (Some \<lparr> doc_id = ''journals/my-note'', title = ''my note'', doc_type = ''journal'',
                 category = None, date = Some ''my-note'', tags = Some (Arr []), summary = None,
                 content = ''text'', sections = None \<rparr>)"
    by (simp add: model_defs example_defs fs_flat_dashed_def)
  have d: "loader_path brain0 fs_flat_dashed ''journals/my-note'' = Some ?p
      \<and> resolve fs_flat_dashed ?p = Some (File ?b)
      \<and> front_matter (path_ends_md ?p) (File ?b) = Some (Fields no_fields)"
    by (simp add: loader_defs model_defs example_defs fs_flat_dashed_def)
  have e: "scan_entry ''projects'' (''my-project'', Dir ?subs) =
     Inr [\<lparr> doc_id = ''projects/my-project'', title = ''my project'', doc_type = ''project'',
            category = Some ''my-project'', date = None, tags = Some (Arr []), summary = None \<rparr>]"
    by (simp add: model_defs example_defs)
  have f: "scan_sub_entry ''projects'' ''cat'' (''my-note.md'', File ?b) =
     Inr [\<lparr> doc_id = ''projects/cat/my-note'', title = ''my note'', doc_type = ''project'',
            category = Some ''cat'', date = None, tags = Some (Arr []), summary = None \<rparr>]"
    by (simp add: model_defs example_defs)
  have g: "spec_title None None ''projects/my-project'' = ''my project''
      \<and> spec_title None None ''projects/cat/my-note'' = ''my note''
      \<and> spec_title None None ''journals/my-note'' = ''my note''"
    by (simp add: spec_title_def spec_precedence_def replace_dashes_def)
  from title_fallback [where subs = ?subs and b = ?b and name = "''my-project''"
      and type = "''projects''" and c = "''cat''" and stem = "''my-note''" and f = ?b
      and fm = no_fields
      and brain = brain0 and fs = fs_flat_dashed and ident = "''journals/my-note''"
      and p = ?p and nd = "File ?b"
      and doc = "\<lparr> doc_id = ''journals/my-note'', title = ''my note'',
                 doc_type = ''journal'', category = None, date = Some ''my-note'',
                 tags = Some (Arr []), summary = None, content = ''text'', sections = None \<rparr>"]
    a b c d e f g
  show ?thesis
    by (simp add: markdown_def)
qed

subsection \<open>Indexer and loader agree on folders\<close>

lemma js_split_cons: "no_slash a \<Longrightarrow> js_split CHR ''/'' (a @ CHR ''/'' # r) = a # js_split CHR ''/'' r"
  using js_split_ne [of "CHR ''/''" r]
  by (induction a) (auto simp: no_slash_def split: list.splits)

lemma normalize_plain: "list_all plain_name ns \<Longrightarrow> normalize acc ns = acc @ ns"
  by (induction ns arbitrary: acc) (auto simp: plain_name_def)

lemma path_join_plain:
  assumes "list_all plain_name ns" and "js_split CHR ''/'' rel = ns" and "rel \<noteq> []"
    and "last rel \<noteq> CHR ''/''"
  shows "path_join brain rel = (brain @ ns, False)"
  using assms by (simp add: path_join_def normalize_plain)

lemma last_plain: "plain_name s \<Longrightarrow> last (pre @ s) \<noteq> CHR ''/''"
  by (cases s rule: rev_cases) (auto simp: plain_name_def no_slash_def)

lemma path_ends_md_last: "path_ends_md (pre @ [s], False) = endsWith s ''.md''"
  by (simp add: path_ends_md_def)

text \<open>
  For a subdocument folder with plain names whose front matter, sidecar and sections
  can be read, the loader, given the identifier the indexer assigns, returns a document
  with the same identifier, title, type, category, date, tags and summary as the
  indexer's record. For a document folder with a primary body file the same holds for
  every field but the category, which the loader leaves absent; so the records agree
  entirely unless the type folder is \<^verbatim>\<open>projects\<close>.
\<close>

theorem roundtrip_folders:
  "(plain_name t \<and> plain_name c \<and> plain_name s
      \<and> lookup fs (brain @ [t, c, s]) = Some (Dir subs)
      \<and> readable (endsWith s ''.md'') (Dir subs) \<and> sections_readable (Dir subs) \<longrightarrow>
      (\<exists>d doc. scan_sub_entry t c (s, Dir subs) = Inr [d]
          \<and> getDocument brain fs (doc_id d) = Inr (Some doc) \<and> same_meta doc d))
   \<and> (plain_name t \<and> plain_name n
      \<and> lookup fs (brain @ [t, n]) = Some (Dir subs)
      \<and> primary_body (Dir subs) = Some (File b)
      \<and> readable (endsWith n ''.md'') (Dir subs) \<and> sections_readable (Dir subs) \<longrightarrow>
      (\<exists>d doc. scan_entry t (n, Dir subs) = Inr [d]
          \<and> getDocument brain fs (doc_id d) = Inr (Some doc)
          \<and> same_meta doc (d\<lparr> category := None \<rparr>)
          \<and> (t \<noteq> ''projects'' \<longrightarrow> same_meta doc d)))"
proof (intro conjI impI)
  assume a: "plain_name t \<and> plain_name c \<and> plain_name s
      \<and> lookup fs (brain @ [t, c, s]) = Some (Dir subs)
      \<and> readable (endsWith s ''.md'') (Dir subs) \<and> sections_readable (Dir subs)"
  let ?id = "t @ CHR ''/'' # c @ CHR ''/'' # s"
  let ?p = "(brain @ [t, c, s], False)"
  from a have split: "js_split CHR ''/'' ?id = [t, c, s]"
    by (simp add: plain_name_def js_split_cons js_split_no_slash)
  from a have "last ?id \<noteq> CHR ''/''"
    using last_plain [of s "t @ CHR ''/'' # c @ ''/''"] by simp
  with a split have pj: "path_join brain ?id = ?p"
    using path_join_plain [of "[t, c, s]" ?id brain] by (simp add: plain_name_def)
  from a have res: "resolve fs ?p = Some (Dir subs)"
    by (simp add: resolve_def)
  have ends: "path_ends_md ?p = endsWith s ''.md''"
    using path_ends_md_last [of "brain @ [t, c]" s] by simp
  from a obtain fm where fm: "front_matter (endsWith s ''.md'') (Dir subs) = Some fm"
    and ok: "fields_readable (Dir subs) fm"
    by (auto simp: readable_def split: option.splits)
  from getBodyContent_front_matter [OF fm] obtain body
    where gb: "getBodyContent (path_ends_md ?p) (Dir subs) = Inr (body, fm)"
    unfolding ends by auto
  note load = getDocument_directory [OF loader_path_at [OF pj res] res _ gb]
  from a ok show "\<exists>d doc. scan_sub_entry t c (s, Dir subs) = Inr [d]
          \<and> getDocument brain fs (doc_id d) = Inr (Some doc) \<and> same_meta doc d"
    by (simp add: scan_sub_entry_folder [OF fm] load split same_meta_def)
next
  assume a: "plain_name t \<and> plain_name n
      \<and> lookup fs (brain @ [t, n]) = Some (Dir subs)
      \<and> primary_body (Dir subs) = Some (File b)
      \<and> readable (endsWith n ''.md'') (Dir subs) \<and> sections_readable (Dir subs)"
  let ?id = "t @ CHR ''/'' # n"
  let ?p = "(brain @ [t, n], False)"
  from a have split: "js_split CHR ''/'' ?id = [t, n]"
    by (simp add: plain_name_def js_split_cons js_split_no_slash)
  from a have "last ?id \<noteq> CHR ''/''"
    using last_plain [of n "t @ ''/''"] by simp
  with a split have pj: "path_join brain ?id = ?p"
    using path_join_plain [of "[t, n]" ?id brain] by (simp add: plain_name_def)
  from a have res: "resolve fs ?p = Some (Dir subs)"
    by (simp add: resolve_def)
  have ends: "path_ends_md ?p = endsWith n ''.md''"
    using path_ends_md_last [of "brain @ [t]" n] by simp
  from a have hb: "has_body subs"
    by (simp add: has_body_primary)
  from a obtain fm where fm: "front_matter (endsWith n ''.md'') (Dir subs) = Some fm"
    and ok: "fields_readable (Dir subs) fm"
    by (auto simp: readable_def split: option.splits)
  from getBodyContent_front_matter [OF fm] obtain body
    where gb: "getBodyContent (path_ends_md ?p) (Dir subs) = Inr (body, fm)"
    unfolding ends by auto
  note load = getDocument_directory [OF loader_path_at [OF pj res] res _ gb]
  from a ok show "\<exists>d doc. scan_entry t (n, Dir subs) = Inr [d]
          \<and> getDocument brain fs (doc_id d) = Inr (Some doc)
          \<and> same_meta doc (d\<lparr> category := None \<rparr>)
          \<and> (t \<noteq> ''projects'' \<longrightarrow> same_meta doc d)"
    by (simp add: scan_entry_document_folder [OF hb fm] load split same_meta_def)
qed

text \<open>
  The subdocument folder \<^verbatim>\<open>projects/foo/bar\<close> and the document folder
  \<^verbatim>\<open>concepts/gamma\<close> load to the metadata they are listed with.
\<close>

theorem roundtrip_folders_example:
  "getAllDocuments alphabetic brain0 fs_nested =
     Inr [\<lparr> doc_id = ''projects/foo/bar'', title = ''bar'', doc_type = ''project'',
            category = Some ''foo'', date = None, tags = Some (Arr []), summary = None \<rparr>]
   \<and> getDocument brain0 fs_nested ''projects/foo/bar'' =
     Inr (Some \<lparr> doc_id = ''projects/foo/bar'', title = ''bar'', doc_type = ''project'',
                 category = Some ''foo'', date = None, tags = Some (Arr []), summary = None,
                 content = ''text'', sections = Some [] \<rparr>)
   \<and> getAllDocuments alphabetic brain0 fs_dated =
     Inr [\<lparr> doc_id = ''concepts/beta'', title = ''beta'', doc_type = ''concept'',
            category = None, date = Some ''2024-06-01'', tags = Some (Arr []), summary = None \<rparr>,
          \<lparr> doc_id = ''concepts/alpha'', title = ''alpha'', doc_type = ''concept'',
            category = None, date = Some ''2024-01-01'', tags = Some (Arr []), summary = None \<rparr>,
          \<lparr> doc_id = ''concepts/gamma'', title = ''gamma'', doc_type = ''concept'',
            category = None, date = None, tags = Some (Arr []), summary = None \<rparr>]
   \<and> getDocument brain0 fs_dated ''concepts/gamma'' =
     Inr (Some \<lparr> doc_id = ''concepts/gamma'', title = ''gamma'', doc_type = ''concept'',
                 category = None, date = None, tags = Some (Arr []), summary = None,
                 content = ''text'', sections = Some [] \<rparr>)"
proof -
  let ?b = "\<lparr> matter_data = Some (Fields no_fields), matter_content = ''text'',
              json_parse = None \<rparr>"
  let ?subs = "[(''body.md'', File ?b)]"
  have names: "plain_name ''projects'' \<and> plain_name ''foo'' \<and> plain_name ''bar''
      \<and> plain_name ''concepts'' \<and> plain_name ''gamma''"
    by (simp add: plain_name_def no_slash_def)
  have a: "lookup fs_nested (brain0 @ [''projects'', ''foo'', ''bar'']) = Some (Dir ?subs)
      \<and> readable (endsWith ''bar'' ''.md'') (Dir ?subs) \<and> sections_readable (Dir ?subs)"
    by (simp add: loader_defs model_defs example_defs fs_nested_def)
  have b: "lookup fs_dated (brain0 @ [''concepts'', ''gamma'']) = Some (Dir ?subs)
      \<and> primary_body (Dir ?subs) = Some (File ?b)
      \<and> readable (endsWith ''gamma'' ''.md'') (Dir ?subs) \<and> sections_readable (Dir ?subs)"
    by (simp add: loader_defs model_defs example_defs fs_dated_def)
  have c: "getAllDocuments alphabetic brain0 fs_nested =
     Inr [\<lparr> doc_id = ''projects/foo/bar'', title = ''bar'', doc_type = ''project'',
            category = Some ''foo'', date = None, tags = Some (Arr []), summary = None \<rparr>]"
    by (simp add: model_defs example_defs fs_nested_def)
  have d: "getDocument brain0 fs_nested ''projects/foo/bar'' =
     Inr (Some \<lparr> doc_id = ''projects/foo/bar'', title = ''bar'', doc_type = ''project'',
                 category = Some ''foo'', date = None, tags = Some (Arr []), summary = None,
                 content = ''text'', sections = Some [] \<rparr>)"
    by (simp add: model_defs example_defs fs_nested_def)
  have e: "getAllDocuments alphabetic brain0 fs_dated =
     Inr [\<lparr> doc_id = ''concepts/beta'', title = ''beta'', doc_type = ''concept'',
            category = None, date = Some ''2024-06-01'', tags = Some (Arr []), summary = None \<rparr>,
          \<lparr> doc_id = ''concepts/alpha'', title = ''alpha'', doc_type = ''concept'',
            category = None, date = Some ''2024-01-01'', tags = Some (Arr []), summary = None \<rparr>,
          \<lparr> doc_id = ''concepts/gamma'', title = ''gamma'', doc_type = ''concept'',
            category = None, date = None, tags = Some (Arr []), summary = None \<rparr>]"
    by (simp add: model_defs example_defs fs_dated_def)
  have f: "getDocument brain0 fs_dated ''concepts/gamma'' =
     Inr (Some \<lparr> doc_id = ''concepts/gamma'', title = ''gamma'', doc_type = ''concept'',
                 category = None, date = None, tags = Some (Arr []), summary = None,
                 content = ''text'', sections = Some [] \<rparr>)"
    by (simp add: model_defs example_defs fs_dated_def)
  from roundtrip_folders [where t = "''projects''" and c = "''foo''" and s = "''bar''"
      and fs = fs_nested and brain = brain0 and subs = ?subs]
    roundtrip_folders [where t = "''concepts''" and n = "''gamma''"
      and fs = fs_dated and brain = brain0 and subs = ?subs and b = ?b]
    names a b c d e f
  show ?thesis
    by simp
qed

end
